theory Spec2Isabelle
  imports Complex_Main "HOL-Library.Word" "HOL-Library.Monad_Syntax" "HOL-Library.Signed_Division"
begin

unbundle bit_operations_syntax

section \<open>Bytes and big-endian reads (glyph_util.h, glyph_truetype.h)\<close>

text \<open>
  The font is a C buffer \<^verbatim>\<open>const unsigned char* data\<close>. It is modelled as the list of its
  bytes. A read \<^verbatim>\<open>data[i]\<close> outside the buffer is undefined behaviour in C; in the model
  every read of the buffer goes through \<open>byte_at\<close>, which gives \<open>None\<close> there, and a
  function that performs such a read gives \<open>None\<close> as a whole. The C type \<^verbatim>\<open>int\<close> is
  modelled by \<open>int\<close>. Where the source adds a value read from the file to an offset and
  does not read at the sum (lines 179, 235, 295 and 296), the model forms the sum as C does:
  a sum of \<^verbatim>\<open>int\<close>s that leaves the range of \<^verbatim>\<open>int\<close> is undefined (\<open>c_int\<close>), a sum of
  \<^verbatim>\<open>unsigned\<close> values wraps. The other offsets are the places of reads.
\<close>

type_synonym byte = "8 word"

definition byte_at :: "byte list \<Rightarrow> int \<Rightarrow> byte option" where
  "byte_at d i = (if 0 \<le> i \<and> i < int (length d) then Some (d ! nat i) else None)"

text \<open>The result of an operation on C \<^verbatim>\<open>int\<close>s: undefined when it leaves the range of \<^verbatim>\<open>int\<close>.\<close>

definition c_int :: "int \<Rightarrow> int option" where
  "c_int v = (if - (2 ^ 31) \<le> v \<and> v < 2 ^ 31 then Some v else None)"

text \<open>\<^verbatim>\<open>return (val << 8) | (val >> 8);\<close> on a \<^verbatim>\<open>uint16_t\<close>.\<close>

definition glyph__bswap16 :: "16 word \<Rightarrow> 16 word" where
  "glyph__bswap16 val = push_bit 8 val OR drop_bit 8 val"

definition glyph__bswap32 :: "32 word \<Rightarrow> 32 word" where
  "glyph__bswap32 val =
     push_bit 24 (val AND 0xFF) OR push_bit 8 (val AND 0xFF00)
       OR drop_bit 8 (val AND 0xFF0000) OR drop_bit 24 (val AND 0xFF000000)"

text \<open>
  \<^verbatim>\<open>memcpy(&val, data + offset, n)\<close> into an unsigned integer on a little-endian host (the
  unconditional byte swap that follows is only right there): the first byte is the least
  significant one.
\<close>

definition memcpy16 :: "byte list \<Rightarrow> int \<Rightarrow> 16 word option" where
  "memcpy16 d off = do {
     b0 \<leftarrow> byte_at d off;
     b1 \<leftarrow> byte_at d (off + 1);
     Some (ucast b0 OR push_bit 8 (ucast b1))
   }"

definition memcpy32 :: "byte list \<Rightarrow> int \<Rightarrow> 32 word option" where
  "memcpy32 d off = do {
     b0 \<leftarrow> byte_at d off;
     b1 \<leftarrow> byte_at d (off + 1);
     b2 \<leftarrow> byte_at d (off + 2);
     b3 \<leftarrow> byte_at d (off + 3);
     Some (ucast b0 OR push_bit 8 (ucast b1) OR push_bit 16 (ucast b2) OR push_bit 24 (ucast b3))
   }"

text \<open>\<^verbatim>\<open>return (int16_t)val;\<close>, \<^verbatim>\<open>return glyph__bswap16(val);\<close> and, for 32 bits, the
  conversion of the \<^verbatim>\<open>uint32_t\<close> to the \<^verbatim>\<open>int\<close> that is returned.\<close>

definition glyph_ttf__get16 :: "byte list \<Rightarrow> int \<Rightarrow> int option" where
  "glyph_ttf__get16 d off = map_option (\<lambda>val. sint (glyph__bswap16 val)) (memcpy16 d off)"

definition glyph_ttf__get16u :: "byte list \<Rightarrow> int \<Rightarrow> int option" where
  "glyph_ttf__get16u d off = map_option (\<lambda>val. uint (glyph__bswap16 val)) (memcpy16 d off)"

definition glyph_ttf__get32 :: "byte list \<Rightarrow> int \<Rightarrow> int option" where
  "glyph_ttf__get32 d off = map_option (\<lambda>val. sint (glyph__bswap32 val)) (memcpy32 d off)"

section \<open>The font handle and the table directory\<close>

record glyph_font_t =
  data :: "byte list"
  fontstart :: int
  numGlyphs :: int
  loca :: int
  head :: int
  glyf :: int
  hhea :: int
  hmtx :: int
  kern :: int
  gpos :: int
  cmap :: int
  index_map :: int
  indexToLocFormat :: int
  scale :: rat

text \<open>A four-character tag or signature as the bytes of its characters.\<close>

definition tag_bytes :: "string \<Rightarrow> byte list" where
  "tag_bytes s = map of_char s"

text \<open>
  \<^verbatim>\<open>p[0] == t[0] && p[1] == t[1] && p[2] == t[2] && p[3] == t[3]\<close> with \<^verbatim>\<open>p = data + loc\<close>:
  \<^verbatim>\<open>&&\<close> stops at the first byte that differs, so later bytes are not read.
\<close>

fun tag_eq :: "byte list \<Rightarrow> int \<Rightarrow> byte list \<Rightarrow> bool option" where
  "tag_eq d loc [] = Some True"
| "tag_eq d loc (t # ts) = do {
     b \<leftarrow> byte_at d loc;
     if b = t then tag_eq d (loc + 1) ts else Some False
   }"

text \<open>The four alternatives of \<^verbatim>\<open>glyph_ttf__isfont\<close>, tried in the order of the \<^verbatim>\<open>||\<close> chain.\<close>

definition glyph_ttf__isfont :: "byte list \<Rightarrow> int \<Rightarrow> bool option" where
  "glyph_ttf__isfont d p = do {
     ttcf \<leftarrow> tag_eq d p (tag_bytes ''ttcf'');
     if ttcf then Some True else do {
       ttf \<leftarrow> tag_eq d p [0x00, 0x01, 0x00, 0x00];
       if ttf then Some True else do {
         otto \<leftarrow> tag_eq d p (tag_bytes ''OTTO'');
         if otto then Some True else tag_eq d p (tag_bytes ''true'')
       }
     }
   }"

text \<open>
  The loop of \<^verbatim>\<open>glyph_ttf__find_table\<close>: \<open>k\<close> counts the iterations that remain, \<open>i\<close> is
  the loop variable.
\<close>

fun find_table_loop :: "byte list \<Rightarrow> int \<Rightarrow> byte list \<Rightarrow> nat \<Rightarrow> int \<Rightarrow> int option" where
  "find_table_loop d tabledir tg 0 i = Some 0"
| "find_table_loop d tabledir tg (Suc k) i = do {
     hit \<leftarrow> tag_eq d (tabledir + 16 * i) tg;
     if hit then glyph_ttf__get32 d (tabledir + 16 * i + 8)
     else find_table_loop d tabledir tg k (i + 1)
   }"

definition glyph_ttf__find_table :: "byte list \<Rightarrow> int \<Rightarrow> string \<Rightarrow> int option" where
  "glyph_ttf__find_table d fs tg = do {
     num_tables \<leftarrow> glyph_ttf__get16u d (fs + 4);
     find_table_loop d (fs + 12) (tag_bytes tg) (nat num_tables) 0
   }"

section \<open>Loading a font: glyph_ttf_init\<close>

text \<open>One encoding record of the cmap header: platform, platform-specific id, offset.\<close>

definition cmap_record :: "byte list \<Rightarrow> int \<Rightarrow> int \<Rightarrow> (int \<times> int \<times> int) option" where
  "cmap_record d cmap_offset i = do {
     platformID \<leftarrow> glyph_ttf__get16u d (cmap_offset + 4 + 8 * i);
     platformSpecificID \<leftarrow> glyph_ttf__get16u d (cmap_offset + 4 + 8 * i + 2);
     offset_sub \<leftarrow> glyph_ttf__get32 d (cmap_offset + 4 + 8 * i + 4);
     Some (platformID, platformSpecificID, offset_sub)
   }"

definition is_unicode_record :: "int \<times> int \<times> int \<Rightarrow> bool" where
  "is_unicode_record r = (case r of (platformID, platformSpecificID, offset_sub) \<Rightarrow>
     platformID = 0 \<or> (platformID = 3 \<and> (platformSpecificID = 1 \<or> platformSpecificID = 10)))"

text \<open>The subtable scan of \<^verbatim>\<open>glyph_ttf_init\<close>; the result is \<^verbatim>\<open>index_map\<close> after the loop
  (0 when the loop ends without a \<^verbatim>\<open>break\<close>).\<close>

fun cmap_scan :: "byte list \<Rightarrow> int \<Rightarrow> nat \<Rightarrow> int \<Rightarrow> int option" where
  "cmap_scan d cmap_offset 0 i = Some 0"
| "cmap_scan d cmap_offset (Suc k) i = do {
     r \<leftarrow> cmap_record d cmap_offset i;
     if is_unicode_record r then c_int (cmap_offset + snd (snd r))
     else cmap_scan d cmap_offset k (i + 1)
   }"

text \<open>
  \<^verbatim>\<open>glyph_ttf_init\<close> writes into the handle it is given and returns 0 or 1. The model
  returns the return value together with the handle as it is at that \<^verbatim>\<open>return\<close>.
\<close>

definition glyph_ttf_init :: "glyph_font_t \<Rightarrow> byte list \<Rightarrow> int \<Rightarrow> (int \<times> glyph_font_t) option" where
  "glyph_ttf_init font0 d offset =
    (let font1 = font0\<lparr>data := d, fontstart := offset\<rparr> in do {
       isfont \<leftarrow> glyph_ttf__isfont d offset;
       if \<not> isfont then Some (0, font1) else do {
         t_cmap \<leftarrow> glyph_ttf__find_table d offset ''cmap'';
         t_loca \<leftarrow> glyph_ttf__find_table d offset ''loca'';
         t_head \<leftarrow> glyph_ttf__find_table d offset ''head'';
         t_glyf \<leftarrow> glyph_ttf__find_table d offset ''glyf'';
         t_hhea \<leftarrow> glyph_ttf__find_table d offset ''hhea'';
         t_hmtx \<leftarrow> glyph_ttf__find_table d offset ''hmtx'';
         t_kern \<leftarrow> glyph_ttf__find_table d offset ''kern'';
         t_gpos \<leftarrow> glyph_ttf__find_table d offset ''GPOS'';
         let font2 = font1\<lparr>cmap := t_cmap, loca := t_loca, head := t_head, glyf := t_glyf,
                            hhea := t_hhea, hmtx := t_hmtx, kern := t_kern, gpos := t_gpos\<rparr> in
         if t_cmap = 0 \<or> t_head = 0 \<or> t_hhea = 0 \<or> t_hmtx = 0 then Some (0, font2)
         else if t_glyf \<noteq> 0 \<and> t_loca = 0 then Some (0, font2)
         else do {
           itlf \<leftarrow> glyph_ttf__get16 d (t_head + 50);
           let font3 = font2\<lparr>indexToLocFormat := itlf\<rparr> in do {
             numTables \<leftarrow> glyph_ttf__get16u d (t_cmap + 2);
             im \<leftarrow> cmap_scan d t_cmap (nat numTables) 0;
             if im = 0 then Some (0, font3) else do {
               ng \<leftarrow> glyph_ttf__get16u d (t_hhea + 34);
               Some (1, font3\<lparr>index_map := im, numGlyphs := ng\<rparr>)
             }
           }
         }
       }
     })"

section \<open>Mapping a codepoint to a glyph: glyph_ttf_find_glyph_index\<close>

text \<open>The segment loop of cmap format 4.\<close>

fun format4_loop :: "byte list \<Rightarrow> int \<Rightarrow> int \<Rightarrow> int \<Rightarrow> int \<Rightarrow> int \<Rightarrow> nat \<Rightarrow> int \<Rightarrow> int option" where
  "format4_loop d endCount startCount idDelta idRangeOffset codepoint 0 i = Some 0"
| "format4_loop d endCount startCount idDelta idRangeOffset codepoint (Suc k) i = do {
     end \<leftarrow> glyph_ttf__get16u d (endCount + i * 2);
     if codepoint \<le> end then do {
       start \<leftarrow> glyph_ttf__get16u d (startCount + i * 2);
       if codepoint \<ge> start then do {
         delta \<leftarrow> glyph_ttf__get16 d (idDelta + i * 2);
         rangeOffset \<leftarrow> glyph_ttf__get16u d (idRangeOffset + i * 2);
         if rangeOffset = 0 then Some ((codepoint + delta) AND 0xFFFF)
         else do {
           glyphIndex \<leftarrow> glyph_ttf__get16u d
             (idRangeOffset + i * 2 + rangeOffset + (codepoint - start) * 2);
           Some (if glyphIndex \<noteq> 0 then (glyphIndex + delta) AND 0xFFFF else 0)
         }
       }
       else format4_loop d endCount startCount idDelta idRangeOffset codepoint k (i + 1)
     }
     else format4_loop d endCount startCount idDelta idRangeOffset codepoint k (i + 1)
   }"

text \<open>The group loop of cmap formats 12 and 13.\<close>

fun format12_loop :: "byte list \<Rightarrow> int \<Rightarrow> int \<Rightarrow> int \<Rightarrow> nat \<Rightarrow> int \<Rightarrow> int option" where
  "format12_loop d im format codepoint 0 i = Some 0"
| "format12_loop d im format codepoint (Suc k) i = do {
     startCharCode \<leftarrow> glyph_ttf__get32 d (im + 16 + i * 12);
     endCharCode \<leftarrow> glyph_ttf__get32 d (im + 16 + i * 12 + 4);
     if codepoint \<ge> startCharCode \<and> codepoint \<le> endCharCode then do {
       g \<leftarrow> glyph_ttf__get32 d (im + 16 + i * 12 + 8);
       if format = 12 then do {
         delta \<leftarrow> c_int (codepoint - startCharCode);
         c_int (g + delta)
       }
       else Some g
     }
     else format12_loop d im format codepoint k (i + 1)
   }"

definition glyph_ttf_find_glyph_index :: "glyph_font_t \<Rightarrow> int \<Rightarrow> int option" where
  "glyph_ttf_find_glyph_index font codepoint =
    (let d = data font; im = index_map font in do {
       format \<leftarrow> glyph_ttf__get16u d im;
       if format = 0 then do {
         bytes \<leftarrow> glyph_ttf__get16u d (im + 2);
         if codepoint < bytes - 6 then map_option uint (byte_at d (im + 6 + codepoint))
         else Some 0
       }
       else if format = 6 then do {
         first \<leftarrow> glyph_ttf__get16u d (im + 6);
         count \<leftarrow> glyph_ttf__get16u d (im + 8);
         if codepoint \<ge> first \<and> codepoint < first + count
         then glyph_ttf__get16u d (im + 10 + (codepoint - first) * 2)
         else Some 0
       }
       else if format = 4 then do {
         segcountX2 \<leftarrow> glyph_ttf__get16u d (im + 6);
         let segcount = drop_bit 1 segcountX2;
             endCount = im + 14;
             startCount = endCount + segcount * 2 + 2;
             idDelta = startCount + segcount * 2;
             idRangeOffset = idDelta + segcount * 2
         in format4_loop d endCount startCount idDelta idRangeOffset codepoint (nat segcount) 0
       }
       else if format = 12 \<or> format = 13 then do {
         nGroups \<leftarrow> glyph_ttf__get32 d (im + 12);
         format12_loop d im format codepoint (nat nGroups) 0
       }
       else Some 0
     })"


section \<open>Glyph location and bounding box\<close>

record glyph_bbox_t =
  x0 :: int
  y0 :: int
  x1 :: int
  y1 :: int
  advance :: int
  left_side_bearing :: int

text \<open>
  \<^verbatim>\<open>font->glyf + (font->indexToLocFormat ? get32(..) : get16u(..) * 2)\<close>: the conditional
  has the type \<^verbatim>\<open>unsigned int\<close>, so the sum is formed modulo \<open>2^32\<close> and then converted to
  the \<^verbatim>\<open>int\<close> \<open>g1\<close> or \<open>g2\<close>.
\<close>

definition unsigned_sum :: "int \<Rightarrow> int \<Rightarrow> int" where
  "unsigned_sum a b = sint (word_of_int (a + b) :: 32 word)"

definition glyph_ttf__get_glyph_offset :: "glyph_font_t \<Rightarrow> int \<Rightarrow> int option" where
  "glyph_ttf__get_glyph_offset font glyph_index =
    (let d = data font;
         offset = loca font + glyph_index * (if indexToLocFormat font \<noteq> 0 then 4 else 2)
     in do {
       e1 \<leftarrow> (if indexToLocFormat font \<noteq> 0 then glyph_ttf__get32 d offset
              else map_option (\<lambda>v. v * 2) (glyph_ttf__get16u d offset));
       e2 \<leftarrow> (if indexToLocFormat font \<noteq> 0 then glyph_ttf__get32 d (offset + 4)
              else map_option (\<lambda>v. v * 2) (glyph_ttf__get16u d (offset + 2)));
       let g1 = unsigned_sum (glyf font) e1; g2 = unsigned_sum (glyf font) e2 in
       Some (if g1 = g2 then - 1 else g1)
     })"

definition glyph_ttf_get_glyph_bbox :: "glyph_font_t \<Rightarrow> int \<Rightarrow> glyph_bbox_t \<Rightarrow> glyph_bbox_t option" where
  "glyph_ttf_get_glyph_bbox font glyph_index bbox =
    (if glyph_index \<ge> numGlyphs font then Some (bbox\<lparr>x0 := 0, y0 := 0, x1 := 0, y1 := 0\<rparr>)
     else do {
       g \<leftarrow> glyph_ttf__get_glyph_offset font glyph_index;
       if g < 0 then Some (bbox\<lparr>x0 := 0, y0 := 0, x1 := 0, y1 := 0\<rparr>)
       else do {
         v0 \<leftarrow> glyph_ttf__get16 (data font) (g + 2);
         v1 \<leftarrow> glyph_ttf__get16 (data font) (g + 4);
         v2 \<leftarrow> glyph_ttf__get16 (data font) (g + 6);
         v3 \<leftarrow> glyph_ttf__get16 (data font) (g + 8);
         Some (bbox\<lparr>x0 := v0, y0 := v1, x1 := v2, y1 := v3\<rparr>)
       }
     })"

definition glyph_ttf_get_glyph_advance :: "glyph_font_t \<Rightarrow> int \<Rightarrow> int option" where
  "glyph_ttf_get_glyph_advance font glyph_index = do {
     numOfLongHorMetrics \<leftarrow> glyph_ttf__get16u (data font) (hhea font + 34);
     if glyph_index < numOfLongHorMetrics
     then glyph_ttf__get16u (data font) (hmtx font + 4 * glyph_index)
     else glyph_ttf__get16u (data font) (hmtx font + 4 * (numOfLongHorMetrics - 1))
   }"

section \<open>Single-precision arithmetic\<close>

text \<open>
  A C \<^verbatim>\<open>float\<close> is modelled by the rational number it denotes. An arithmetic operation on
  floats computes the exact result and rounds it to the nearest binary32 value, ties to the
  even significand (24 significant bits, subnormal spacing \<open>2^-149\<close> below \<open>2^-126\<close>), as
  IEEE 754 arithmetic evaluated in \<^verbatim>\<open>float\<close> precision does. Infinities and NaN have no
  value here: a division by zero gives \<open>None\<close>, and results beyond the largest finite float
  are not cut off.
\<close>

function ilog2 :: "int \<Rightarrow> int" where
  "ilog2 n = (if n < 2 then 0 else 1 + ilog2 (n div 2))"
  by pat_completeness auto
termination
  by (relation "measure nat") auto

declare ilog2.simps [simp del]

definition pow2 :: "int \<Rightarrow> rat" where
  "pow2 e = (if 0 \<le> e then 2 ^ nat e else 1 / 2 ^ nat (- e))"

text \<open>For \<open>x > 0\<close>: the exponent \<open>e\<close> with \<open>2^e \<le> x < 2^(e+1)\<close>.\<close>

definition binary_exponent :: "rat \<Rightarrow> int" where
  "binary_exponent x =
     (if 1 \<le> x then ilog2 \<lfloor>x\<rfloor>
      else (let n = \<lceil>1 / x\<rceil> in if n \<le> 1 then 0 else - (1 + ilog2 (n - 1))))"

definition round_half_even :: "rat \<Rightarrow> int" where
  "round_half_even r =
     (let f = \<lfloor>r\<rfloor>; d = r - of_int f
      in if d < 1 / 2 then f else if 1 / 2 < d then f + 1 else if even f then f else f + 1)"

definition f32_round :: "rat \<Rightarrow> rat" where
  "f32_round x =
     (if x = 0 then 0
      else (let u = pow2 (max (binary_exponent \<bar>x\<bar>) (- 126) - 23)
            in sgn x * (of_int (round_half_even (\<bar>x\<bar> / u)) * u)))"


definition f32_sub :: "rat \<Rightarrow> rat \<Rightarrow> rat" where
  "f32_sub a b = f32_round (a - b)"

definition f32_mul :: "rat \<Rightarrow> rat \<Rightarrow> rat" where
  "f32_mul a b = f32_round (a * b)"

definition f32_div :: "rat \<Rightarrow> rat \<Rightarrow> rat option" where
  "f32_div a b = (if b = 0 then None else Some (f32_round (a / b)))"

text \<open>The conversion of an \<^verbatim>\<open>int\<close> to \<^verbatim>\<open>float\<close>.\<close>

definition f32_of_int :: "int \<Rightarrow> rat" where
  "f32_of_int i = f32_round (of_int i)"

text \<open>
  \<^verbatim>\<open>(int)f\<close> and \<^verbatim>\<open>(unsigned char)f\<close>: the fraction is dropped; the conversion is undefined
  when the result does not fit the target type.
\<close>

definition trunc_zero :: "rat \<Rightarrow> int" where
  "trunc_zero f = (if 0 \<le> f then \<lfloor>f\<rfloor> else \<lceil>f\<rceil>)"

definition int_of_f32 :: "rat \<Rightarrow> int option" where
  "int_of_f32 f = (if - (2 ^ 31) \<le> trunc_zero f \<and> trunc_zero f < 2 ^ 31 then Some (trunc_zero f) else None)"


section \<open>Scale and glyph bitmaps: glyph_ttf_get_glyph_bitmap\<close>

definition glyph_ttf_scale_for_pixel_height :: "glyph_font_t \<Rightarrow> rat \<Rightarrow> rat option" where
  "glyph_ttf_scale_for_pixel_height font pixels = do {
     unitsPerEm \<leftarrow> glyph_ttf__get16u (data font) (head font + 18);
     f32_div pixels (f32_of_int unitsPerEm)
   }"

text \<open>A read of one of the arrays the function allocates (\<^verbatim>\<open>point_flags\<close>, \<^verbatim>\<open>x_coords\<close>,
  \<^verbatim>\<open>y_coords\<close>); outside the array it is undefined.\<close>

definition array_at :: "'a list \<Rightarrow> int \<Rightarrow> 'a option" where
  "array_at xs i = (if 0 \<le> i \<and> i < int (length xs) then Some (xs ! nat i) else None)"

text \<open>
  The flag loop: \<open>k\<close> is \<^verbatim>\<open>n_points - flag_index\<close>, \<open>di\<close> is \<^verbatim>\<open>data_index\<close>. A flag with bit 8
  is followed by a repeat count; the repeats stop when the array is full. The result is the
  flags read and \<^verbatim>\<open>data_index\<close> after the loop.
\<close>

fun read_flags :: "byte list \<Rightarrow> nat \<Rightarrow> int \<Rightarrow> (byte list \<times> int) option" where
  "read_flags d 0 di = Some ([], di)"
| "read_flags d (Suc k) di = do {
     flag \<leftarrow> byte_at d di;
     if flag AND 8 \<noteq> 0 then do {
       repeat_count \<leftarrow> byte_at d (di + 1);
       (rest, di') \<leftarrow> read_flags d (k - min (unat repeat_count) k) (di + 2);
       Some (flag # replicate (min (unat repeat_count) k) flag @ rest, di')
     }
     else do {
       (rest, di') \<leftarrow> read_flags d k (di + 1);
       Some (flag # rest, di')
     }
   }"

text \<open>
  The coordinate loops, one for x (\<open>short = 2\<close>, \<open>same = 16\<close>) and one for y (\<open>short = 4\<close>,
  \<open>same = 32\<close>): a one-byte delta with its sign in the second bit, a two-byte signed delta,
  or no delta. \<open>v\<close> is the running sum.
\<close>

fun read_coords :: "byte list \<Rightarrow> byte \<Rightarrow> byte \<Rightarrow> byte list \<Rightarrow> int \<Rightarrow> int \<Rightarrow> (int list \<times> int) option" where
  "read_coords d short same [] v di = Some ([], di)"
| "read_coords d short same (flag # flags) v di =
    (if flag AND short \<noteq> 0 then do {
       b \<leftarrow> byte_at d di;
       let v' = v + (if flag AND same = 0 then - uint b else uint b) in do {
         (rest, di') \<leftarrow> read_coords d short same flags v' (di + 1);
         Some (v' # rest, di')
       }
     }
     else if flag AND same = 0 then do {
       dv \<leftarrow> glyph_ttf__get16 d di;
       (rest, di') \<leftarrow> read_coords d short same flags (v + dv) (di + 2);
       Some ((v + dv) # rest, di')
     }
     else do {
       (rest, di') \<leftarrow> read_coords d short same flags v di;
       Some (v # rest, di')
     })"

text \<open>A point of a contour: x, y and \<^verbatim>\<open>on_curve\<close> (\<^verbatim>\<open>glyph_point_t\<close>).\<close>

type_synonym glyph_point_t = "rat \<times> rat \<times> int"

text \<open>
  The inner loop over the points \<open>p = start_pt .. end_pt\<close> of one contour (\<open>k\<close> iterations
  remain): the point itself, and the midpoint to its successor when both are off the curve.
\<close>

fun contour_points ::
  "byte list \<Rightarrow> int list \<Rightarrow> int list \<Rightarrow> int \<Rightarrow> int \<Rightarrow> rat \<Rightarrow> rat \<Rightarrow> int \<Rightarrow> int \<Rightarrow> nat \<Rightarrow> int
     \<Rightarrow> glyph_point_t list option" where
  "contour_points point_flags x_coords y_coords xMin yMax scale_x scale_y start_pt end_pt 0 p = Some []"
| "contour_points point_flags x_coords y_coords xMin yMax scale_x scale_y start_pt end_pt (Suc k) p =
    (let next_p = (if p = end_pt then start_pt else p + 1) in do {
       xp \<leftarrow> array_at x_coords p;
       yp \<leftarrow> array_at y_coords p;
       fp \<leftarrow> array_at point_flags p;
       let pt = (f32_mul (f32_of_int (xp - xMin)) scale_x,
                 f32_mul (f32_of_int (yMax - yp)) scale_y,
                 uint (fp AND 1)) in
       if fp AND 1 = 0 then do {
         fn \<leftarrow> array_at point_flags next_p;
         if fn AND 1 = 0 then do {
           xn \<leftarrow> array_at x_coords next_p;
           yn \<leftarrow> array_at y_coords next_p;
           rest \<leftarrow> contour_points point_flags x_coords y_coords xMin yMax scale_x scale_y
                    start_pt end_pt k (p + 1);
           Some (pt #
                 (f32_mul (f32_sub (f32_mul (f32_of_int (xp + xn)) (1 / 2)) (f32_of_int xMin)) scale_x,
                  f32_mul (f32_sub (f32_of_int yMax) (f32_mul (f32_of_int (yp + yn)) (1 / 2))) scale_y,
                  1) # rest)
         }
         else do {
           rest \<leftarrow> contour_points point_flags x_coords y_coords xMin yMax scale_x scale_y
                    start_pt end_pt k (p + 1);
           Some (pt # rest)
         }
       }
       else do {
         rest \<leftarrow> contour_points point_flags x_coords y_coords xMin yMax scale_x scale_y
                  start_pt end_pt k (p + 1);
         Some (pt # rest)
       }
     })"

text \<open>
  The loop over the contours \<open>c\<close>. A contour whose length is not positive has no points
  (its allocation fails or its point loop does not run).
\<close>

fun contours_loop ::
  "byte list \<Rightarrow> int \<Rightarrow> byte list \<Rightarrow> int list \<Rightarrow> int list \<Rightarrow> int \<Rightarrow> int \<Rightarrow> rat \<Rightarrow> rat \<Rightarrow> nat \<Rightarrow> int
     \<Rightarrow> glyph_point_t list list option" where
  "contours_loop d endPtsOfContours point_flags x_coords y_coords xMin yMax scale_x scale_y 0 c = Some []"
| "contours_loop d endPtsOfContours point_flags x_coords y_coords xMin yMax scale_x scale_y (Suc k) c = do {
     start_pt \<leftarrow> (if c = 0 then Some 0
                  else map_option (\<lambda>v. v + 1) (glyph_ttf__get16u d (endPtsOfContours + (c - 1) * 2)));
     end_pt \<leftarrow> glyph_ttf__get16u d (endPtsOfContours + c * 2);
     contour \<leftarrow> contour_points point_flags x_coords y_coords xMin yMax scale_x scale_y
                  start_pt end_pt (nat (end_pt - start_pt + 1)) start_pt;
     rest \<leftarrow> contours_loop d endPtsOfContours point_flags x_coords y_coords xMin yMax scale_x scale_y
              k (c + 1);
     Some (contour # rest)
   }"

text \<open>
  What \<^verbatim>\<open>glyph_ttf_get_glyph_bitmap\<close> hands back: whether the returned pointer is
  \<^verbatim>\<open>NULL\<close>, and the four output parameters. \<open>outline\<close> is the list of contours that the
  function passes to \<^verbatim>\<open>glyph_ttf__rasterize_shape\<close>; the pixel values that the rasteriser
  computes from it are not part of the model. Allocations are taken to succeed, and
  \<^verbatim>\<open>w * h\<close> must fit an \<^verbatim>\<open>int\<close>.
\<close>

record glyph_bitmap_t =
  out_null :: bool
  out_width :: int
  out_height :: int
  out_xoff :: int
  out_yoff :: int
  outline :: "glyph_point_t list list"

definition null_bitmap :: glyph_bitmap_t where
  "null_bitmap = \<lparr>out_null = True, out_width = 0, out_height = 0, out_xoff = 0, out_yoff = 0,
     outline = []\<rparr>"

definition glyph_ttf_get_glyph_bitmap ::
  "glyph_font_t \<Rightarrow> int \<Rightarrow> rat \<Rightarrow> rat \<Rightarrow> glyph_bitmap_t option" where
  "glyph_ttf_get_glyph_bitmap font glyph_index scale_x scale_y =
    (let d = data font in do {
       g \<leftarrow> glyph_ttf__get_glyph_offset font glyph_index;
       if g < 0 then Some null_bitmap
       else do {
         numberOfContours \<leftarrow> glyph_ttf__get16 d g;
         if numberOfContours > 0 then do {
           xMin \<leftarrow> glyph_ttf__get16 d (g + 2);
           yMin \<leftarrow> glyph_ttf__get16 d (g + 4);
           xMax \<leftarrow> glyph_ttf__get16 d (g + 6);
           yMax \<leftarrow> glyph_ttf__get16 d (g + 8);
           cw \<leftarrow> int_of_f32 (of_int \<lceil>f32_mul (f32_of_int (xMax - xMin)) scale_x\<rceil>);
           ch \<leftarrow> int_of_f32 (of_int \<lceil>f32_mul (f32_of_int (yMax - yMin)) scale_y\<rceil>);
           let w = cw + 1; h = ch + 1 in
           if w \<le> 0 \<or> h \<le> 0 then Some null_bitmap
           else if 2 ^ 31 \<le> w * h then None
           else do {
             let endPtsOfContours = g + 10 in do {
             instructionLength \<leftarrow> glyph_ttf__get16u d (endPtsOfContours + numberOfContours * 2);
             let instructions = endPtsOfContours + numberOfContours * 2 + 2;
                 flags_start = instructions + instructionLength in do {
             lastEndPt \<leftarrow> glyph_ttf__get16u d (endPtsOfContours + (numberOfContours - 1) * 2);
             let n_points = lastEndPt + 1 in do {
             (point_flags, di1) \<leftarrow> read_flags d (nat n_points) flags_start;
             (x_coords, di2) \<leftarrow> read_coords d 2 16 point_flags 0 di1;
             (y_coords, di3) \<leftarrow> read_coords d 4 32 point_flags 0 di2;
             contours \<leftarrow> contours_loop d endPtsOfContours point_flags x_coords y_coords
                           xMin yMax scale_x scale_y (nat numberOfContours) 0;
             xo \<leftarrow> int_of_f32 (f32_mul (f32_of_int xMin) scale_x);
             yo \<leftarrow> int_of_f32 (f32_mul (f32_of_int yMax) scale_y);
             Some \<lparr>out_null = False, out_width = w, out_height = h, out_xoff = xo, out_yoff = yo,
                    outline = contours\<rparr>
             }}}
           }
         }
         else Some null_bitmap
       }
     })"

section \<open>Images and the BMP writer (glyph_image.h)\<close>

text \<open>
  \<^verbatim>\<open>glyph_image_t\<close>: \<^verbatim>\<open>unsigned int width, height\<close> and the pixel buffer (\<^verbatim>\<open>data\<close> in the
  source), which is \<open>None\<close> for a \<^verbatim>\<open>NULL\<close> pointer.
\<close>

record glyph_image_t =
  width :: "32 word"
  height :: "32 word"
  img_data :: "byte list option"

text \<open>\<^verbatim>\<open>(unsigned char)((v >> (8 * k)) & 0xFF)\<close> for an \<^verbatim>\<open>int\<close> \<open>v\<close>.\<close>

definition int_byte :: "int \<Rightarrow> nat \<Rightarrow> byte" where
  "int_byte v k = of_int (drop_bit (8 * k) v AND 0xFF)"

definition bmp_fileheader :: "int \<Rightarrow> byte list" where
  "bmp_fileheader file_size =
     [0x42, 0x4D, int_byte file_size 0, int_byte file_size 1, int_byte file_size 2,
      int_byte file_size 3, 0, 0, 0, 0, 54, 0, 0, 0]"

definition bmp_infoheader :: "int \<Rightarrow> int \<Rightarrow> int \<Rightarrow> byte list" where
  "bmp_infoheader w h data_size =
     [40, 0, 0, 0,
      int_byte w 0, int_byte w 1, int_byte w 2, int_byte w 3,
      int_byte h 0, int_byte h 1, int_byte h 2, int_byte h 3,
      1, 0, 24, 0, 0, 0, 0, 0,
      int_byte data_size 0, int_byte data_size 1, int_byte data_size 2, int_byte data_size 3,
      0, 0, 0, 0, 0, 0, 0, 0, 0, 0, 0, 0, 0, 0, 0, 0]"

text \<open>The loop over \<open>x\<close> of one row (\<open>k\<close> iterations remain): the three bytes of pixel
  \<open>(x, y)\<close> are read as r, g, b and written as b, g, r.\<close>

fun bmp_pixels :: "byte list \<Rightarrow> int \<Rightarrow> int \<Rightarrow> nat \<Rightarrow> int \<Rightarrow> byte list option" where
  "bmp_pixels d w y 0 x = Some []"
| "bmp_pixels d w y (Suc k) x = do {
     r \<leftarrow> byte_at d ((y * w + x) * 3 + 0);
     g \<leftarrow> byte_at d ((y * w + x) * 3 + 1);
     b \<leftarrow> byte_at d ((y * w + x) * 3 + 2);
     rest \<leftarrow> bmp_pixels d w y k (x + 1);
     Some (b # g # r # rest)
   }"

text \<open>One pass of the loop over \<open>y\<close>: the pixels and then
  \<^verbatim>\<open>(4 - (width * 3 % 4)) % 4\<close> zero bytes; \<^verbatim>\<open>%\<close> truncates towards zero.\<close>

definition bmp_row :: "byte list \<Rightarrow> int \<Rightarrow> int \<Rightarrow> byte list option" where
  "bmp_row d w y = do {
     px \<leftarrow> bmp_pixels d w y (nat w) 0;
     Some (px @ replicate (nat ((4 - (w * 3) smod 4) smod 4)) 0)
   }"

text \<open>The loop over \<open>y\<close>, from \<^verbatim>\<open>height - 1\<close> down to 0 (\<open>k\<close> iterations remain).\<close>

fun bmp_rows :: "byte list \<Rightarrow> int \<Rightarrow> nat \<Rightarrow> int \<Rightarrow> byte list option" where
  "bmp_rows d w 0 y = Some []"
| "bmp_rows d w (Suc k) y = do {
     row \<leftarrow> bmp_row d w y;
     rest \<leftarrow> bmp_rows d w k (y - 1);
     Some (row @ rest)
   }"

text \<open>
  \<^verbatim>\<open>glyph_write_bmp\<close>: the return value and the bytes written to the file, which is taken
  to open. \<open>None\<close> stands for undefined behaviour: an overflow of the \<^verbatim>\<open>int\<close> sizes or a
  read outside the pixel buffer.
\<close>

definition glyph_write_bmp :: "glyph_image_t \<Rightarrow> (int \<times> byte list) option" where
  "glyph_write_bmp img =
    (case img_data img of
       None \<Rightarrow> Some (- 1, [])
     | Some d \<Rightarrow>
        (let w = sint (width img); h = sint (height img) in do {
           w3 \<leftarrow> c_int (w * 3);
           w33 \<leftarrow> c_int (w3 + 3);
           let row_size = (w33 sdiv 4) * 4 in do {
             data_size \<leftarrow> c_int (row_size * h);
             file_size \<leftarrow> c_int (54 + data_size);
             rows \<leftarrow> bmp_rows d w (nat h) (h - 1);
             Some (0, bmp_fileheader file_size @ bmp_infoheader w h data_size @ rows)
           }
         }))"

section \<open>Signed distance fields: glyph_ttf_get_glyph_sdf_bitmap\<close>


















section \<open>Checksums and the PNG writer (glyph_image.h)\<close>







text \<open>The four bytes that \<^verbatim>\<open>write_u32_be\<close> writes.\<close>

definition write_u32_be :: "32 word \<Rightarrow> byte list" where
  "write_u32_be v =
     [ucast (drop_bit 24 v AND 0xFF), ucast (drop_bit 16 v AND 0xFF),
      ucast (drop_bit 8 v AND 0xFF), ucast (v AND 0xFF)]"








section \<open>Vocabulary of the statements\<close>

text \<open>
  Segment \<open>i\<close> of a format-4 subtable at \<open>im\<close> with \<open>segcount\<close> segments, read at the
  places \<^verbatim>\<open>glyph_ttf_find_glyph_index\<close> computes: (start, end, idDelta, idRangeOffset).
\<close>

definition format4_segment :: "byte list \<Rightarrow> int \<Rightarrow> int \<Rightarrow> int \<Rightarrow> (int \<times> int \<times> int \<times> int) option" where
  "format4_segment d im segcount i = do {
     end \<leftarrow> glyph_ttf__get16u d (im + 14 + i * 2);
     start \<leftarrow> glyph_ttf__get16u d (im + 14 + segcount * 2 + 2 + i * 2);
     delta \<leftarrow> glyph_ttf__get16 d (im + 14 + segcount * 2 + 2 + segcount * 2 + i * 2);
     rangeOffset \<leftarrow> glyph_ttf__get16u d
       (im + 14 + segcount * 2 + 2 + segcount * 2 + segcount * 2 + i * 2);
     Some (start, end, delta, rangeOffset)
   }"

definition seg_covers :: "(int \<times> int \<times> int \<times> int) option \<Rightarrow> int \<Rightarrow> bool" where
  "seg_covers s cp =
     (case s of Some (start, end, delta, ro) \<Rightarrow> start \<le> cp \<and> cp \<le> end | None \<Rightarrow> False)"

definition format4_segcount :: "glyph_font_t \<Rightarrow> int option" where
  "format4_segcount font =
     map_option (drop_bit 1) (glyph_ttf__get16u (data font) (index_map font + 6))"

text \<open>
  No entry of the table directory at \<open>fs\<close> carries the tag (the directory has the number
  of entries that \<^verbatim>\<open>glyph_ttf__find_table\<close> reads at \<open>fs + 4\<close>).
\<close>

definition table_absent :: "byte list \<Rightarrow> int \<Rightarrow> string \<Rightarrow> bool" where
  "table_absent d fs tg =
     (case glyph_ttf__get16u d (fs + 4) of
        None \<Rightarrow> False
      | Some n \<Rightarrow> list_all (\<lambda>i. tag_eq d (fs + 12 + 16 * int i) (tag_bytes tg) = Some False) [0..<nat n])"

text \<open>The eight lookups of \<^verbatim>\<open>glyph_ttf_init\<close>, in its order, and the handle after them.\<close>

definition directory_tables ::
  "byte list \<Rightarrow> int \<Rightarrow> (int \<times> int \<times> int \<times> int \<times> int \<times> int \<times> int \<times> int) option" where
  "directory_tables d fs = do {
     t_cmap \<leftarrow> glyph_ttf__find_table d fs ''cmap'';
     t_loca \<leftarrow> glyph_ttf__find_table d fs ''loca'';
     t_head \<leftarrow> glyph_ttf__find_table d fs ''head'';
     t_glyf \<leftarrow> glyph_ttf__find_table d fs ''glyf'';
     t_hhea \<leftarrow> glyph_ttf__find_table d fs ''hhea'';
     t_hmtx \<leftarrow> glyph_ttf__find_table d fs ''hmtx'';
     t_kern \<leftarrow> glyph_ttf__find_table d fs ''kern'';
     t_gpos \<leftarrow> glyph_ttf__find_table d fs ''GPOS'';
     Some (t_cmap, t_loca, t_head, t_glyf, t_hhea, t_hmtx, t_kern, t_gpos)
   }"

definition with_tables ::
  "glyph_font_t \<Rightarrow> byte list \<Rightarrow> int \<Rightarrow> int \<Rightarrow> int \<Rightarrow> int \<Rightarrow> int \<Rightarrow> int \<Rightarrow> int \<Rightarrow> int \<Rightarrow> int \<Rightarrow> glyph_font_t" where
  "with_tables font d fs t_cmap t_loca t_head t_glyf t_hhea t_hmtx t_kern t_gpos =
     font\<lparr>data := d, fontstart := fs, cmap := t_cmap, loca := t_loca, head := t_head, glyf := t_glyf,
          hhea := t_hhea, hmtx := t_hmtx, kern := t_kern, gpos := t_gpos\<rparr>"

text \<open>The encoding records \<open>0..<n\<close> of the cmap at \<open>c\<close> are readable and none of them is
  platform 0 or platform 3 with encoding 1 or 10.\<close>

definition non_unicode_before :: "byte list \<Rightarrow> int \<Rightarrow> nat \<Rightarrow> bool" where
  "non_unicode_before d c n =
     list_all (\<lambda>j. case cmap_record d c (int j) of None \<Rightarrow> False | Some r \<Rightarrow> \<not> is_unicode_record r) [0..<n]"

text \<open>
  Entry \<open>k\<close> of the loca table as \<^verbatim>\<open>glyph_ttf__get_glyph_offset\<close> reads it: a 4-byte
  entry as it is when \<^verbatim>\<open>indexToLocFormat\<close> is non-zero, else a 2-byte entry doubled.
\<close>

definition loca_entry :: "glyph_font_t \<Rightarrow> int \<Rightarrow> int option" where
  "loca_entry font k =
     (if indexToLocFormat font \<noteq> 0 then glyph_ttf__get32 (data font) (loca font + k * 4)
      else map_option (\<lambda>v. v * 2) (glyph_ttf__get16u (data font) (loca font + k * 2)))"

text \<open>
  Row \<open>y\<close> of an image of width \<open>w\<close> in BGR order, and the row size of the BMP file,
  \<open>((W*3+3)/4)*4\<close>.
\<close>

definition bgr_row :: "byte list \<Rightarrow> nat \<Rightarrow> nat \<Rightarrow> byte list" where
  "bgr_row d w y =
     concat (map (\<lambda>x. [d ! ((y * w + x) * 3 + 2), d ! ((y * w + x) * 3 + 1), d ! ((y * w + x) * 3)])
                 [0..<w])"

definition bmp_row_size :: "int \<Rightarrow> int" where
  "bmp_row_size w = ((w * 3 + 3) div 4) * 4"

section \<open>A reference decoder for the PNG files of the writer\<close>















section \<open>A synthetic font\<close>

text \<open>
  A TrueType file of 334 bytes: six tables (cmap at 108, glyf at 184, head at 224, hhea at
  278, hmtx at 314, loca at 326), \<open>unitsPerEm = 1000\<close>, short loca entries, three glyphs.
  Glyph 0 is a square with corners (0,0) and (1000,1000), glyph 1 has no outline, glyph 2
  is a composite glyph. The cmap has three encoding records, (1,0), (3,1) and (0,3) in this
  order; the second points to subtable A (format 4, one segment 65..66 with idDelta 0 and
  idRangeOffset 0), the other two to subtable B (the same segment with idDelta -64).
  The second font differs in the cmap header only: its records are (1,0), (3,0) and (1,0).
\<close>

definition sample_header :: "byte list" where
  "sample_header =
    [0x00, 0x01, 0x00, 0x00, 0x00, 0x06, 0x00, 0x40, 0x00, 0x02, 0x00, 0x20]"

definition sample_directory :: "byte list" where
  "sample_directory =
    [0x63, 0x6D, 0x61, 0x70, 0x00, 0x00, 0x00, 0x00, 0x00, 0x00, 0x00, 0x6C, 0x00, 0x00, 0x00, 0x4C,
     0x67, 0x6C, 0x79, 0x66, 0x00, 0x00, 0x00, 0x00, 0x00, 0x00, 0x00, 0xB8, 0x00, 0x00, 0x00, 0x28,
     0x68, 0x65, 0x61, 0x64, 0x00, 0x00, 0x00, 0x00, 0x00, 0x00, 0x00, 0xE0, 0x00, 0x00, 0x00, 0x36,
     0x68, 0x68, 0x65, 0x61, 0x00, 0x00, 0x00, 0x00, 0x00, 0x00, 0x01, 0x16, 0x00, 0x00, 0x00, 0x24,
     0x68, 0x6D, 0x74, 0x78, 0x00, 0x00, 0x00, 0x00, 0x00, 0x00, 0x01, 0x3A, 0x00, 0x00, 0x00, 0x0C,
     0x6C, 0x6F, 0x63, 0x61, 0x00, 0x00, 0x00, 0x00, 0x00, 0x00, 0x01, 0x46, 0x00, 0x00, 0x00, 0x08]"

definition sample_cmap_unicode :: "byte list" where
  "sample_cmap_unicode =
    [0x00, 0x00, 0x00, 0x03, 0x00, 0x01, 0x00, 0x00, 0x00, 0x00, 0x00, 0x34, 0x00, 0x03, 0x00, 0x01,
     0x00, 0x00, 0x00, 0x1C, 0x00, 0x00, 0x00, 0x03, 0x00, 0x00, 0x00, 0x34]"

definition sample_cmap_symbol :: "byte list" where
  "sample_cmap_symbol =
    [0x00, 0x00, 0x00, 0x03, 0x00, 0x01, 0x00, 0x00, 0x00, 0x00, 0x00, 0x34, 0x00, 0x03, 0x00, 0x00,
     0x00, 0x00, 0x00, 0x1C, 0x00, 0x01, 0x00, 0x00, 0x00, 0x00, 0x00, 0x34]"

definition sample_subtable_a :: "byte list" where
  "sample_subtable_a =
    [0x00, 0x04, 0x00, 0x18, 0x00, 0x00, 0x00, 0x02, 0x00, 0x02, 0x00, 0x00, 0x00, 0x00, 0x00, 0x42,
     0x00, 0x00, 0x00, 0x41, 0x00, 0x00, 0x00, 0x00]"

definition sample_subtable_b :: "byte list" where
  "sample_subtable_b =
    [0x00, 0x04, 0x00, 0x18, 0x00, 0x00, 0x00, 0x02, 0x00, 0x02, 0x00, 0x00, 0x00, 0x00, 0x00, 0x42,
     0x00, 0x00, 0x00, 0x41, 0xFF, 0xC0, 0x00, 0x00]"

definition sample_glyf :: "byte list" where
  "sample_glyf =
    [0x00, 0x01, 0x00, 0x00, 0x00, 0x00, 0x03, 0xE8, 0x03, 0xE8, 0x00, 0x03, 0x00, 0x00, 0x31, 0x21,
     0x11, 0x21, 0x03, 0xE8, 0xFC, 0x18, 0x03, 0xE8, 0xFF, 0xFF, 0x00, 0x00, 0x00, 0x00, 0x03, 0xE8,
     0x03, 0xE8, 0x00, 0x02, 0x00, 0x00, 0x00, 0x00]"

definition sample_head :: "byte list" where
  "sample_head =
    [0x00, 0x01, 0x00, 0x00, 0x00, 0x01, 0x00, 0x00, 0x00, 0x00, 0x00, 0x00, 0x5F, 0x0F, 0x3C, 0xF5,
     0x00, 0x00, 0x03, 0xE8, 0x00, 0x00, 0x00, 0x00, 0x00, 0x00, 0x00, 0x00, 0x00, 0x00, 0x00, 0x00,
     0x00, 0x00, 0x00, 0x00, 0x00, 0x00, 0x00, 0x00, 0x03, 0xE8, 0x03, 0xE8, 0x00, 0x00, 0x00, 0x08,
     0x00, 0x02, 0x00, 0x00, 0x00, 0x00]"

definition sample_hhea :: "byte list" where
  "sample_hhea =
    [0x00, 0x01, 0x00, 0x00, 0x03, 0xE8, 0x00, 0x00, 0x00, 0x00, 0x03, 0xE8, 0x00, 0x00, 0x00, 0x00,
     0x03, 0xE8, 0x00, 0x01, 0x00, 0x00, 0x00, 0x00, 0x00, 0x00, 0x00, 0x00, 0x00, 0x00, 0x00, 0x00,
     0x00, 0x00, 0x00, 0x03]"

definition sample_hmtx :: "byte list" where
  "sample_hmtx =
    [0x03, 0xE8, 0x00, 0x00, 0x03, 0xE8, 0x00, 0x00, 0x03, 0xE8, 0x00, 0x00]"

definition sample_loca :: "byte list" where
  "sample_loca =
    [0x00, 0x00, 0x00, 0x0C, 0x00, 0x0C, 0x00, 0x14]"


definition sample_font_bytes :: "byte list" where
  "sample_font_bytes =
     sample_header @ sample_directory @ sample_cmap_unicode @ sample_subtable_a @ sample_subtable_b
       @ sample_glyf @ sample_head @ sample_hhea @ sample_hmtx @ sample_loca"

definition symbol_font_bytes :: "byte list" where
  "symbol_font_bytes =
     sample_header @ sample_directory @ sample_cmap_symbol @ sample_subtable_a @ sample_subtable_b
       @ sample_glyf @ sample_head @ sample_hhea @ sample_hmtx @ sample_loca"

text \<open>A handle before any font was loaded into it (\<^verbatim>\<open>glyph_font_t font = {0}\<close>).\<close>

definition zero_font :: glyph_font_t where
  "zero_font = \<lparr>data = [], fontstart = 0, numGlyphs = 0, loca = 0, head = 0, glyf = 0, hhea = 0,
     hmtx = 0, kern = 0, gpos = 0, cmap = 0, index_map = 0, indexToLocFormat = 0, scale = 0\<rparr>"

text \<open>The handle \<^verbatim>\<open>glyph_ttf_init\<close> fills for the synthetic font (lemma \<open>init_sample_font\<close>).\<close>

definition sample_font :: glyph_font_t where
  "sample_font = \<lparr>data = sample_font_bytes, fontstart = 0, numGlyphs = 3, loca = 326, head = 224,
     glyf = 184, hhea = 278, hmtx = 314, kern = 0, gpos = 0, cmap = 108, index_map = 136,
     indexToLocFormat = 0, scale = 0\<rparr>"

text \<open>
  Two more buffers: a TrueType header whose directory has the one entry cmap (28 bytes), and
  four bytes that are no font signature.
\<close>

definition cmap_only_bytes :: "byte list" where
  "cmap_only_bytes =
    [0x00, 0x01, 0x00, 0x00, 0x00, 0x01, 0x00, 0x10, 0x00, 0x00, 0x00, 0x00,
     0x63, 0x6D, 0x61, 0x70, 0x00, 0x00, 0x00, 0x00, 0x00, 0x00, 0x00, 0x1C, 0x00, 0x00, 0x00, 0x00]"

definition gif_bytes :: "byte list" where
  "gif_bytes = [0x47, 0x49, 0x46, 0x38]"

text \<open>A bounding-box record with recognisable contents.\<close>

definition sample_bbox :: glyph_bbox_t where
  "sample_bbox = \<lparr>x0 = 1, y0 = 2, x1 = 3, y1 = 4, advance = 5, left_side_bearing = 6\<rparr>"

text \<open>
  A 2 by 2 image, and an image whose width \<open>2^32 - 1\<close> is \<open>-1\<close> as an \<^verbatim>\<open>int\<close> (its buffer
  has the \<open>3 * width * height\<close> bytes of an image of that size).
\<close>

definition sample_image :: glyph_image_t where
  "sample_image = \<lparr>width = 2, height = 2, img_data = Some [1, 2, 3, 4, 5, 6, 7, 8, 9, 10, 11, 12]\<rparr>"

definition wide_image :: glyph_image_t where
  "wide_image = \<lparr>width = 0xFFFFFFFF, height = 1, img_data = Some (replicate 12884901885 0)\<rparr>"

section \<open>Reading the synthetic font\<close>

lemmas sample_parts =
  sample_header_def sample_directory_def sample_cmap_unicode_def sample_cmap_symbol_def
  sample_subtable_a_def sample_subtable_b_def sample_glyf_def sample_head_def sample_hhea_def
  sample_hmtx_def sample_loca_def

lemmas read_defs =
  glyph_ttf__get16u_def glyph_ttf__get16_def glyph_ttf__get32_def memcpy16_def memcpy32_def
  byte_at_def glyph__bswap16_def glyph__bswap32_def

lemma init_sample_font: "glyph_ttf_init zero_font sample_font_bytes 0 = Some (1, sample_font)"
  by code_simp

section \<open>Facts about the arithmetic\<close>

lemma ilog2_nonneg: "0 \<le> ilog2 n"
  by (induction n rule: ilog2.induct) (subst ilog2.simps, simp)


lemma ilog2_upper: "n < 2 ^ k \<Longrightarrow> 0 < k \<Longrightarrow> ilog2 n < int k"
proof (induction n arbitrary: k rule: ilog2.induct)
  case (1 n)
  show ?case
  proof (cases "n < 2")
    case True
    with "1.prems" show ?thesis by (subst ilog2.simps) simp
  next
    case False
    obtain k' where k: "k = Suc k'" using "1.prems"(2) by (cases k) auto
    from "1.prems"(1) k have "n div 2 < 2 ^ k'" by simp
    moreover have "0 < k'" using False "1.prems"(1) k by (cases k') auto
    ultimately have "ilog2 (n div 2) < int k'" using "1.IH" False by simp
    then show ?thesis using False k by (subst ilog2.simps) simp
  qed
qed

lemma round_half_even_int: "round_half_even (of_int m) = m"
  by (simp add: round_half_even_def)

lemma f32_round_nat_exact:
  assumes "1 \<le> a" and "a < 2 ^ 24"
  shows "f32_round (of_int a) = of_int a"
proof -
  let ?e = "ilog2 a"
  have e0: "0 \<le> ?e" by (rule ilog2_nonneg)
  have e1: "?e < 24" using ilog2_upper[of a 24] assms by simp
  have be: "binary_exponent \<bar>of_int a\<bar> = ?e"
    using assms by (simp add: binary_exponent_def)
  define k where "k = nat (23 - ?e)"
  have u: "pow2 (max ?e (- 126) - 23) = 1 / 2 ^ k"
    using e0 e1 by (auto simp: pow2_def k_def max_def)
  have q: "\<bar>rat_of_int a\<bar> / (1 / 2 ^ k) = of_int (a * 2 ^ k)"
    using assms by simp
  have "f32_round (of_int a) = sgn (rat_of_int a) * (of_int (round_half_even (of_int (a * 2 ^ k))) * (1 / 2 ^ k))"
    using assms unfolding f32_round_def be u Let_def q by simp
  also have "\<dots> = of_int a"
    using assms unfolding round_half_even_int by simp
  finally show ?thesis .
qed

lemma f32_round_minus: "f32_round (- x) = - f32_round x"
  by (simp add: f32_round_def Let_def)

lemma f32_of_int_exact: "\<bar>i\<bar> < 2 ^ 24 \<Longrightarrow> f32_of_int i = of_int i"
proof -
  assume a: "\<bar>i\<bar> < 2 ^ 24"
  consider "i = 0" | "1 \<le> i" | "1 \<le> - i" by linarith
  then show ?thesis
  proof cases
    case 1
    then show ?thesis by (simp add: f32_of_int_def f32_round_def)
  next
    case 2
    with a show ?thesis by (simp add: f32_of_int_def f32_round_nat_exact)
  next
    case 3
    with a have "f32_round (of_int (- i)) = of_int (- i)" by (intro f32_round_nat_exact) simp_all
    then show ?thesis using f32_round_minus[of "of_int i"] by (simp add: f32_of_int_def)
  qed
qed

lemma get16u_range: "glyph_ttf__get16u d off = Some v \<Longrightarrow> 0 \<le> v \<and> v < 65536"
proof -
  assume "glyph_ttf__get16u d off = Some v"
  then obtain w :: "16 word" where "v = uint w"
    by (auto simp: glyph_ttf__get16u_def)
  then show ?thesis using uint_lt2p[of w] by simp
qed

lemma get16_range: "glyph_ttf__get16 d off = Some v \<Longrightarrow> - 32768 \<le> v \<and> v < 32768"
proof -
  assume "glyph_ttf__get16 d off = Some v"
  then obtain w :: "16 word" where "v = sint w"
    by (auto simp: glyph_ttf__get16_def)
  then show ?thesis using sint_ge[of w] sint_lt[of w] by simp
qed






section \<open>Codepoint mapping, format 4\<close>

lemma and_ffff: "(x::int) AND 0xFFFF = x mod 65536"
proof -
  have "x AND mask 16 = x mod 2 ^ 16"
    by (simp only: take_bit_eq_mask [symmetric] take_bit_eq_mod)
  then show ?thesis by (simp add: mask_eq_exp_minus_1)
qed

lemma format4_loop_miss:
  "(\<And>j. j < k \<Longrightarrow> format4_segment d im sc (i + int j) \<noteq> None \<and> \<not> seg_covers (format4_segment d im sc (i + int j)) cp)
   \<Longrightarrow> format4_loop d (im + 14) (im + 14 + sc * 2 + 2) (im + 14 + sc * 2 + 2 + sc * 2)
         (im + 14 + sc * 2 + 2 + sc * 2 + sc * 2) cp k i = Some 0"
proof (induction k arbitrary: i)
  case 0
  then show ?case by simp
next
  case (Suc k)
  have a: "format4_segment d im sc i \<noteq> None \<and> \<not> seg_covers (format4_segment d im sc i) cp"
    using Suc.prems[of 0] by simp
  have b: "format4_loop d (im + 14) (im + 14 + sc * 2 + 2) (im + 14 + sc * 2 + 2 + sc * 2)
         (im + 14 + sc * 2 + 2 + sc * 2 + sc * 2) cp k (i + 1) = Some 0"
  proof (rule Suc.IH)
    fix j assume "j < k"
    then show "format4_segment d im sc (i + 1 + int j) \<noteq> None \<and> \<not> seg_covers (format4_segment d im sc (i + 1 + int j)) cp"
      using Suc.prems[of "Suc j"] by (simp add: add.assoc)
  qed
  from a b show ?case
    by (auto simp: format4_segment_def seg_covers_def split: Option.bind_splits)
qed

lemma format4_loop_hit:
  "m < k \<Longrightarrow>
   (\<And>j. j < m \<Longrightarrow> format4_segment d im sc (i + int j) \<noteq> None \<and> \<not> seg_covers (format4_segment d im sc (i + int j)) cp) \<Longrightarrow>
   format4_segment d im sc (i + int m) = Some (start, end, delta, 0) \<Longrightarrow>
   start \<le> cp \<Longrightarrow> cp \<le> end
   \<Longrightarrow> format4_loop d (im + 14) (im + 14 + sc * 2 + 2) (im + 14 + sc * 2 + 2 + sc * 2)
         (im + 14 + sc * 2 + 2 + sc * 2 + sc * 2) cp k i = Some ((cp + delta) mod 65536)"
proof (induction k arbitrary: i m)
  case 0
  then show ?case by simp
next
  case (Suc k)
  show ?case
  proof (cases m)
    case 0
    with Suc.prems(3-5) show ?thesis
      by (auto simp: format4_segment_def and_ffff split: Option.bind_splits)
  next
    case (Suc m')
    have a: "format4_segment d im sc i \<noteq> None \<and> \<not> seg_covers (format4_segment d im sc i) cp"
      using Suc.prems(2)[of 0] Suc by simp
    have b: "format4_loop d (im + 14) (im + 14 + sc * 2 + 2) (im + 14 + sc * 2 + 2 + sc * 2)
         (im + 14 + sc * 2 + 2 + sc * 2 + sc * 2) cp k (i + 1) = Some ((cp + delta) mod 65536)"
    proof (rule Suc.IH[of m'])
      show "m' < k" using Suc.prems(1) Suc by simp
      show "format4_segment d im sc (i + 1 + int m') = Some (start, end, delta, 0)"
        using Suc.prems(3) Suc by (simp add: algebra_simps)
      show "start \<le> cp" "cp \<le> end" by fact+
      fix j assume "j < m'"
      then show "format4_segment d im sc (i + 1 + int j) \<noteq> None \<and> \<not> seg_covers (format4_segment d im sc (i + 1 + int j)) cp"
        using Suc.prems(2)[of "Suc j"] Suc by (simp add: add.assoc)
    qed
    from a b show ?thesis
      by (auto simp: format4_segment_def seg_covers_def split: Option.bind_splits)
  qed
qed

text \<open>
  Claim C2. In a cmap format-4 subtable with \<open>sc\<close> segments, let segment \<open>i\<close> be the first
  one that covers the codepoint (\<open>start \<le> cp \<le> end\<close>); when its idRangeOffset is 0,
  \<^verbatim>\<open>glyph_ttf_find_glyph_index\<close> returns \<open>(cp + idDelta) mod 65536\<close>. When no segment
  covers the codepoint it returns 0. The segments are the ones inside the buffer.
\<close>

theorem find_glyph_index_format4:
  assumes fmt: "glyph_ttf__get16u (data font) (index_map font) = Some 4"
    and sc: "format4_segcount font = Some sc"
  shows "(\<forall>i start end delta.
            i < nat sc \<and>
            (\<forall>j<i. format4_segment (data font) (index_map font) sc (int j) \<noteq> None \<and>
                    \<not> seg_covers (format4_segment (data font) (index_map font) sc (int j)) cp) \<and>
            format4_segment (data font) (index_map font) sc (int i) = Some (start, end, delta, 0) \<and>
            start \<le> cp \<and> cp \<le> end
            \<longrightarrow> glyph_ttf_find_glyph_index font cp = Some ((cp + delta) mod 65536))
       \<and> ((\<forall>j<nat sc. format4_segment (data font) (index_map font) sc (int j) \<noteq> None \<and>
                    \<not> seg_covers (format4_segment (data font) (index_map font) sc (int j)) cp)
            \<longrightarrow> glyph_ttf_find_glyph_index font cp = Some 0)"
proof -
  from sc obtain sx2 where sx2: "glyph_ttf__get16u (data font) (index_map font + 6) = Some sx2"
    and sc2: "sc = drop_bit 1 sx2"
    by (auto simp: format4_segcount_def)
  have unf: "glyph_ttf_find_glyph_index font cp =
     format4_loop (data font) (index_map font + 14) (index_map font + 14 + sc * 2 + 2)
       (index_map font + 14 + sc * 2 + 2 + sc * 2) (index_map font + 14 + sc * 2 + 2 + sc * 2 + sc * 2)
       cp (nat sc) 0"
    using fmt sx2 sc2 by (simp add: glyph_ttf_find_glyph_index_def Let_def)
  show ?thesis
  proof (intro conjI allI impI)
    fix i start "end" delta
    assume h: "i < nat sc \<and>
            (\<forall>j<i. format4_segment (data font) (index_map font) sc (int j) \<noteq> None \<and>
                    \<not> seg_covers (format4_segment (data font) (index_map font) sc (int j)) cp) \<and>
            format4_segment (data font) (index_map font) sc (int i) = Some (start, end, delta, 0) \<and>
            start \<le> cp \<and> cp \<le> end"
    show "glyph_ttf_find_glyph_index font cp = Some ((cp + delta) mod 65536)"
      unfolding unf
      by (rule format4_loop_hit[where m = i and start = start and ?end = "end"]) (use h in simp_all)
  next
    assume h: "\<forall>j<nat sc. format4_segment (data font) (index_map font) sc (int j) \<noteq> None \<and>
                    \<not> seg_covers (format4_segment (data font) (index_map font) sc (int j)) cp"
    show "glyph_ttf_find_glyph_index font cp = Some 0"
      unfolding unf
      by (rule format4_loop_miss) (use h in simp)
  qed
qed


text \<open>
  The scenario of the claim on the synthetic font: the selected subtable has the one segment
  65..66 with idDelta 0 and idRangeOffset 0; codepoint 65 maps to glyph 65, codepoint 67 to 0.
\<close>

theorem find_glyph_index_format4_witness:
  "glyph_ttf__get16u (data sample_font) (index_map sample_font) = Some 4
   \<and> format4_segcount sample_font = Some 1
   \<and> format4_segment (data sample_font) (index_map sample_font) 1 0 = Some (65, 66, 0, 0)
   \<and> glyph_ttf_find_glyph_index sample_font 65 = Some 65
   \<and> glyph_ttf_find_glyph_index sample_font 67 = Some 0"
proof -
  have fmt: "glyph_ttf__get16u (data sample_font) (index_map sample_font) = Some 4"
    by code_simp
  have sc: "format4_segcount sample_font = Some 1"
    by code_simp
  have seg: "format4_segment (data sample_font) (index_map sample_font) 1 (int 0) = Some (65, 66, 0, 0)"
    by code_simp
  have a: "glyph_ttf_find_glyph_index sample_font 65 = Some ((65 + 0) mod 65536)"
    using find_glyph_index_format4 [OF fmt sc, of 65] seg by force
  have b: "glyph_ttf_find_glyph_index sample_font 67 = Some 0"
    using find_glyph_index_format4 [OF fmt sc, of 67] seg by (simp add: seg_covers_def)
  from fmt sc seg a b show ?thesis by simp
qed

section \<open>Failure paths of glyph_ttf_init\<close>

lemma find_table_loop_absent:
  "list_all (\<lambda>j. tag_eq d (td + 16 * (i + int j)) tg = Some False) [0..<k]
   \<Longrightarrow> find_table_loop d td tg k i = Some 0"
proof (induction k arbitrary: i)
  case 0
  then show ?case by simp
next
  case (Suc k)
  from Suc.prems have all: "\<And>j. j < Suc k \<Longrightarrow> tag_eq d (td + 16 * (i + int j)) tg = Some False"
    unfolding list_all_iff by (metis atLeastLessThan_iff set_upt zero_le)
  have "tag_eq d (td + 16 * i) tg = Some False" using all[of 0] by simp
  moreover have "find_table_loop d td tg k (i + 1) = Some 0"
  proof (rule Suc.IH)
    show "list_all (\<lambda>j. tag_eq d (td + 16 * (i + 1 + int j)) tg = Some False) [0..<k]"
      unfolding list_all_iff
    proof
      fix j assume "j \<in> set [0..<k]"
      then have "Suc j < Suc k" by simp
      from all[OF this] show "tag_eq d (td + 16 * (i + 1 + int j)) tg = Some False"
        by (simp add: algebra_simps)
    qed
  qed
  ultimately show ?case by simp
qed

lemma find_table_absent: "table_absent d fs tg \<Longrightarrow> glyph_ttf__find_table d fs tg = Some 0"
  unfolding table_absent_def glyph_ttf__find_table_def
  using find_table_loop_absent[of d "fs + 12" 0 "tag_bytes tg"]
  by (auto split: option.splits simp: algebra_simps)

lemma init_bad_signature:
  "glyph_ttf__isfont d off = Some False \<Longrightarrow>
   glyph_ttf_init font d off = Some (0, font\<lparr>data := d, fontstart := off\<rparr>)"
  by (simp add: glyph_ttf_init_def)

lemma init_after_directory:
  assumes "glyph_ttf__isfont d off = Some True"
    and "directory_tables d off = Some (c, l, h, g, hh, hm, k, gp)"
  shows "glyph_ttf_init font d off =
    (if c = 0 \<or> h = 0 \<or> hh = 0 \<or> hm = 0 then Some (0, with_tables font d off c l h g hh hm k gp)
     else if g \<noteq> 0 \<and> l = 0 then Some (0, with_tables font d off c l h g hh hm k gp)
     else do {
       itlf \<leftarrow> glyph_ttf__get16 d (h + 50);
       numTables \<leftarrow> glyph_ttf__get16u d (c + 2);
       im \<leftarrow> cmap_scan d c (nat numTables) 0;
       if im = 0 then Some (0, (with_tables font d off c l h g hh hm k gp)\<lparr>indexToLocFormat := itlf\<rparr>)
       else do {
         ng \<leftarrow> glyph_ttf__get16u d (hh + 34);
         Some (1, (with_tables font d off c l h g hh hm k gp)\<lparr>indexToLocFormat := itlf, index_map := im, numGlyphs := ng\<rparr>)
       }
     })"
proof -
  from assms(2) have t:
    "glyph_ttf__find_table d off ''cmap'' = Some c" "glyph_ttf__find_table d off ''loca'' = Some l"
    "glyph_ttf__find_table d off ''head'' = Some h" "glyph_ttf__find_table d off ''glyf'' = Some g"
    "glyph_ttf__find_table d off ''hhea'' = Some hh" "glyph_ttf__find_table d off ''hmtx'' = Some hm"
    "glyph_ttf__find_table d off ''kern'' = Some k" "glyph_ttf__find_table d off ''GPOS'' = Some gp"
    unfolding directory_tables_def by (simp_all add: Option.bind_eq_Some_conv)
  show ?thesis
    unfolding glyph_ttf_init_def Let_def with_tables_def
    by (simp add: assms(1) t)
qed


text \<open>
  Claim C3, as amended. \<^verbatim>\<open>glyph_ttf_init\<close> returns 0 when the signature is none of the
  four accepted forms, when one of cmap, head, hhea, hmtx is absent from the directory, and
  when glyf is found but loca is absent. The handle is written on the way: \<open>data\<close> and
  \<open>fontstart\<close> always, the eight table offsets once the signature is accepted.
\<close>

theorem init_failure_paths:
  "(glyph_ttf__isfont d off = Some False \<longrightarrow>
      glyph_ttf_init font d off = Some (0, font\<lparr>data := d, fontstart := off\<rparr>))
   \<and> (glyph_ttf__isfont d off = Some True
        \<and> directory_tables d off = Some (c, l, h, g, hh, hm, k, gp)
        \<and> (table_absent d off ''cmap'' \<or> table_absent d off ''head''
             \<or> table_absent d off ''hhea'' \<or> table_absent d off ''hmtx''
             \<or> (g \<noteq> 0 \<and> table_absent d off ''loca''))
      \<longrightarrow> glyph_ttf_init font d off = Some (0, with_tables font d off c l h g hh hm k gp))"
proof (intro conjI impI)
  assume "glyph_ttf__isfont d off = Some False"
  then show "glyph_ttf_init font d off = Some (0, font\<lparr>data := d, fontstart := off\<rparr>)"
    by (rule init_bad_signature)
next
  assume a: "glyph_ttf__isfont d off = Some True
        \<and> directory_tables d off = Some (c, l, h, g, hh, hm, k, gp)
        \<and> (table_absent d off ''cmap'' \<or> table_absent d off ''head''
             \<or> table_absent d off ''hhea'' \<or> table_absent d off ''hmtx''
             \<or> (g \<noteq> 0 \<and> table_absent d off ''loca''))"
  then have t:
    "glyph_ttf__find_table d off ''cmap'' = Some c" "glyph_ttf__find_table d off ''loca'' = Some l"
    "glyph_ttf__find_table d off ''head'' = Some h" "glyph_ttf__find_table d off ''hhea'' = Some hh"
    "glyph_ttf__find_table d off ''hmtx'' = Some hm"
    unfolding directory_tables_def by (simp_all add: Option.bind_eq_Some_conv)
  from a have "c = 0 \<or> h = 0 \<or> hh = 0 \<or> hm = 0 \<or> (g \<noteq> 0 \<and> l = 0)"
    using t find_table_absent[of d off] by fastforce
  then show "glyph_ttf_init font d off = Some (0, with_tables font d off c l h g hh hm k gp)"
    using a init_after_directory[of d off c l h g hh hm k gp font] by auto
qed

text \<open>Both failure paths on concrete buffers.\<close>

theorem init_failure_paths_witness:
  "glyph_ttf__isfont gif_bytes 0 = Some False
   \<and> glyph_ttf_init zero_font gif_bytes 0 = Some (0, zero_font\<lparr>data := gif_bytes, fontstart := 0\<rparr>)
   \<and> glyph_ttf__isfont cmap_only_bytes 0 = Some True
   \<and> directory_tables cmap_only_bytes 0 = Some (28, 0, 0, 0, 0, 0, 0, 0)
   \<and> table_absent cmap_only_bytes 0 ''head''
   \<and> glyph_ttf_init zero_font cmap_only_bytes 0
       = Some (0, with_tables zero_font cmap_only_bytes 0 28 0 0 0 0 0 0 0)"
proof -
  have 1: "glyph_ttf__isfont gif_bytes 0 = Some False" by code_simp
  have 2: "glyph_ttf__isfont cmap_only_bytes 0 = Some True" by code_simp
  have 3: "directory_tables cmap_only_bytes 0 = Some (28, 0, 0, 0, 0, 0, 0, 0)" by code_simp
  have 4: "table_absent cmap_only_bytes 0 ''head''" by code_simp
  show ?thesis
    using init_failure_paths[where d = gif_bytes and off = 0 and font = zero_font]
      init_failure_paths[where d = cmap_only_bytes and off = 0 and font = zero_font and c = 28
        and l = 0 and h = 0 and g = 0 and hh = 0 and hm = 0 and k = 0 and gp = 0] 1 2 3 4
    by simp
qed

text \<open>
  Claim C3 as stated fails: a failed load leaves the data pointer and the cmap offset in the
  handle it was given.
\<close>

theorem init_writes_handle_on_failure:
  "glyph_ttf_init zero_font cmap_only_bytes 0
     = Some (0, zero_font\<lparr>data := cmap_only_bytes, cmap := 28\<rparr>)
   \<and> zero_font\<lparr>data := cmap_only_bytes, cmap := 28\<rparr> \<noteq> zero_font"
proof -
  have "glyph_ttf_init zero_font cmap_only_bytes 0
     = Some (0, zero_font\<lparr>data := cmap_only_bytes, cmap := 28\<rparr>)"
    by code_simp
  moreover have "zero_font\<lparr>data := cmap_only_bytes, cmap := 28\<rparr> \<noteq> zero_font"
  proof
    assume "zero_font\<lparr>data := cmap_only_bytes, cmap := 28\<rparr> = zero_font"
    then have "cmap (zero_font\<lparr>data := cmap_only_bytes, cmap := 28\<rparr>) = cmap zero_font"
      by (rule arg_cong)
    then show False by (simp add: zero_font_def)
  qed
  ultimately show ?thesis by (rule conjI)
qed

section \<open>Empty glyphs and the bounding box\<close>

lemma get_glyph_offset_loca:
  "glyph_ttf__get_glyph_offset font gi = do {
     e1 \<leftarrow> loca_entry font gi;
     e2 \<leftarrow> loca_entry font (gi + 1);
     Some (if unsigned_sum (glyf font) e1 = unsigned_sum (glyf font) e2 then - 1
           else unsigned_sum (glyf font) e1)
   }"
  by (simp add: glyph_ttf__get_glyph_offset_def loca_entry_def Let_def algebra_simps cong del: if_weak_cong)

lemma empty_glyph_offset:
  "loca_entry font gi = Some e \<Longrightarrow> loca_entry font (gi + 1) = Some e \<Longrightarrow>
   glyph_ttf__get_glyph_offset font gi = Some (- 1)"
  by (simp add: get_glyph_offset_loca)

text \<open>
  Claim C10. \<^verbatim>\<open>glyph_ttf_get_glyph_bbox\<close> sets \<open>x0\<close>, \<open>y0\<close>, \<open>x1\<close>, \<open>y1\<close> to 0, reading no
  glyf header, when the glyph index is at least \<open>numGlyphs\<close> and when the two adjacent loca
  entries of the glyph are equal. The other two fields of the record stay as they are.
\<close>

theorem bbox_zero:
  "(numGlyphs font \<le> gi \<longrightarrow>
      glyph_ttf_get_glyph_bbox font gi bbox = Some (bbox\<lparr>x0 := 0, y0 := 0, x1 := 0, y1 := 0\<rparr>))
   \<and> (loca_entry font gi = Some e \<and> loca_entry font (gi + 1) = Some e \<longrightarrow>
      glyph_ttf_get_glyph_bbox font gi bbox = Some (bbox\<lparr>x0 := 0, y0 := 0, x1 := 0, y1 := 0\<rparr>))"
  by (auto simp: glyph_ttf_get_glyph_bbox_def empty_glyph_offset)

text \<open>
  On the synthetic font: index 3 is out of range, glyph 1 is empty (both loca entries are
  24), and glyph 0, which has an outline, gets the box of its header.
\<close>

theorem bbox_zero_witness:
  "numGlyphs sample_font \<le> 3
   \<and> glyph_ttf_get_glyph_bbox sample_font 3 sample_bbox
       = Some \<lparr>x0 = 0, y0 = 0, x1 = 0, y1 = 0, advance = 5, left_side_bearing = 6\<rparr>
   \<and> loca_entry sample_font 1 = Some 24 \<and> loca_entry sample_font (1 + 1) = Some 24
   \<and> glyph_ttf_get_glyph_bbox sample_font 1 sample_bbox
       = Some \<lparr>x0 = 0, y0 = 0, x1 = 0, y1 = 0, advance = 5, left_side_bearing = 6\<rparr>
   \<and> glyph_ttf_get_glyph_bbox sample_font 0 sample_bbox
       = Some \<lparr>x0 = 0, y0 = 0, x1 = 1000, y1 = 1000, advance = 5, left_side_bearing = 6\<rparr>"
proof -
  have a: "numGlyphs sample_font \<le> 3" by (simp add: sample_font_def)
  have b: "loca_entry sample_font 1 = Some 24" by code_simp
  have c: "loca_entry sample_font (1 + 1) = Some 24" by code_simp
  have d: "glyph_ttf_get_glyph_bbox sample_font 0 sample_bbox
       = Some \<lparr>x0 = 0, y0 = 0, x1 = 1000, y1 = 1000, advance = 5, left_side_bearing = 6\<rparr>"
    by code_simp
  show ?thesis
    using bbox_zero[of sample_font 3 sample_bbox] bbox_zero[of sample_font 1 sample_bbox 24] a b c d
    by (simp add: sample_bbox_def)
qed

section \<open>Selection of the cmap subtable\<close>

lemma cmap_scan_miss:
  "(\<And>j. j < k \<Longrightarrow> \<exists>r. cmap_record d c (i + int j) = Some r \<and> \<not> is_unicode_record r)
   \<Longrightarrow> cmap_scan d c k i = Some 0"
proof (induction k arbitrary: i)
  case 0
  then show ?case by simp
next
  case (Suc k)
  obtain r where r: "cmap_record d c i = Some r" "\<not> is_unicode_record r"
    using Suc.prems[of 0] by auto
  have "cmap_scan d c k (i + 1) = Some 0"
  proof (rule Suc.IH)
    fix j assume "j < k"
    then show "\<exists>r. cmap_record d c (i + 1 + int j) = Some r \<and> \<not> is_unicode_record r"
      using Suc.prems[of "Suc j"] by (simp add: algebra_simps)
  qed
  with r show ?case by simp
qed

lemma cmap_scan_hit:
  "m < k \<Longrightarrow>
   (\<And>j. j < m \<Longrightarrow> \<exists>r. cmap_record d c (i + int j) = Some r \<and> \<not> is_unicode_record r) \<Longrightarrow>
   cmap_record d c (i + int m) = Some (p, e, ofs) \<Longrightarrow> is_unicode_record (p, e, ofs) \<Longrightarrow>
   - (2 ^ 31) \<le> c + ofs \<Longrightarrow> c + ofs < 2 ^ 31
   \<Longrightarrow> cmap_scan d c k i = Some (c + ofs)"
proof (induction k arbitrary: i m)
  case 0
  then show ?case by simp
next
  case (Suc k)
  show ?case
  proof (cases m)
    case 0
    with Suc.prems(3,4,5,6) show ?thesis by (simp add: c_int_def)
  next
    case (Suc m')
    obtain r where r: "cmap_record d c i = Some r" "\<not> is_unicode_record r"
      using Suc.prems(2)[of 0] Suc by auto
    have "cmap_scan d c k (i + 1) = Some (c + ofs)"
    proof (rule Suc.IH[of m'])
      show "m' < k" using Suc.prems(1) Suc by simp
      show "cmap_record d c (i + 1 + int m') = Some (p, e, ofs)"
        using Suc.prems(3) Suc by (simp add: algebra_simps)
      show "is_unicode_record (p, e, ofs)" by fact
      show "- (2 ^ 31) \<le> c + ofs" by fact
      show "c + ofs < 2 ^ 31" by fact
      fix j assume "j < m'"
      then show "\<exists>r. cmap_record d c (i + 1 + int j) = Some r \<and> \<not> is_unicode_record r"
        using Suc.prems(2)[of "Suc j"] Suc by (simp add: algebra_simps)
    qed
    with r show ?thesis by simp
  qed
qed

lemma non_unicode_beforeD:
  "non_unicode_before d c n \<Longrightarrow> j < n \<Longrightarrow> \<exists>r. cmap_record d c (0 + int j) = Some r \<and> \<not> is_unicode_record r"
proof -
  assume a: "non_unicode_before d c n" and j: "j < n"
  from j have "j \<in> set [0..<n]" by simp
  with a have "case cmap_record d c (int j) of None \<Rightarrow> False | Some r \<Rightarrow> \<not> is_unicode_record r"
    unfolding non_unicode_before_def list_all_iff by blast
  then show ?thesis by (cases "cmap_record d c (int j)") simp_all
qed

text \<open>
  Claim C5, as amended. For a font that passes the signature and table checks of
  \<^verbatim>\<open>glyph_ttf_init\<close> and whose \<^verbatim>\<open>indexToLocFormat\<close> and number of encoding records are inside
  the buffer: when all encoding records are readable and none is platform 0 or platform 3
  with encoding 1 or 10, \<^verbatim>\<open>glyph_ttf_init\<close> returns 0, the load fails, and the handle holds
  the table offsets and \<^verbatim>\<open>indexToLocFormat\<close> written until then; when record \<open>i\<close> is the first
  such record (the records before it readable), it is the one selected: the sum
  \<open>cmap + offset\<close> of the \<^verbatim>\<open>cmap\<close> table offset and the subtable offset of record \<open>i\<close> becomes
  \<^verbatim>\<open>index_map\<close> and \<^verbatim>\<open>glyph_ttf_init\<close> returns 1, provided that this sum is in the range of
  \<^verbatim>\<open>int\<close> (line 179) and not 0 (line 183) and that \<^verbatim>\<open>numGlyphs\<close> is inside the buffer.
\<close>

theorem init_cmap_selection:
  assumes sig: "glyph_ttf__isfont d off = Some True"
    and dir: "directory_tables d off = Some (c, l, h, g, hh, hm, k, gp)"
    and req: "c \<noteq> 0 \<and> h \<noteq> 0 \<and> hh \<noteq> 0 \<and> hm \<noteq> 0 \<and> (g \<noteq> 0 \<longrightarrow> l \<noteq> 0)"
    and itlf: "glyph_ttf__get16 d (h + 50) = Some itlf"
    and n: "glyph_ttf__get16u d (c + 2) = Some n"
  shows "(non_unicode_before d c (nat n) \<longrightarrow>
            glyph_ttf_init font d off
              = Some (0, (with_tables font d off c l h g hh hm k gp)\<lparr>indexToLocFormat := itlf\<rparr>))
       \<and> (\<forall>i p e ofs ng.
            i < nat n \<and> non_unicode_before d c i \<and> cmap_record d c (int i) = Some (p, e, ofs)
            \<and> is_unicode_record (p, e, ofs)
            \<and> - (2 ^ 31) \<le> c + ofs \<and> c + ofs < 2 ^ 31 \<and> c + ofs \<noteq> 0
            \<and> glyph_ttf__get16u d (hh + 34) = Some ng
            \<longrightarrow> glyph_ttf_init font d off
              = Some (1, (with_tables font d off c l h g hh hm k gp)
                           \<lparr>indexToLocFormat := itlf, index_map := c + ofs, numGlyphs := ng\<rparr>))"
proof (intro conjI allI impI)
  from req have r1: "\<not> (c = 0 \<or> h = 0 \<or> hh = 0 \<or> hm = 0)" and r2: "\<not> (g \<noteq> 0 \<and> l = 0)"
    by auto
  note unf = init_after_directory[OF sig dir, of font, unfolded if_not_P[OF r1] if_not_P[OF r2]]
  {
  assume "non_unicode_before d c (nat n)"
  then have "cmap_scan d c (nat n) 0 = Some 0"
    by (intro cmap_scan_miss non_unicode_beforeD)
  then show "glyph_ttf_init font d off
              = Some (0, (with_tables font d off c l h g hh hm k gp)\<lparr>indexToLocFormat := itlf\<rparr>)"
    using unf itlf n by simp
  }
  fix i p e ofs ng
  assume a: "i < nat n \<and> non_unicode_before d c i \<and> cmap_record d c (int i) = Some (p, e, ofs)
            \<and> is_unicode_record (p, e, ofs)
            \<and> - (2 ^ 31) \<le> c + ofs \<and> c + ofs < 2 ^ 31 \<and> c + ofs \<noteq> 0
            \<and> glyph_ttf__get16u d (hh + 34) = Some ng"
  have "cmap_scan d c (nat n) 0 = Some (c + ofs)"
  proof (rule cmap_scan_hit[where m = i and p = p and e = e])
    show "i < nat n" using a by simp
    show "cmap_record d c (0 + int i) = Some (p, e, ofs)" using a by simp
    show "is_unicode_record (p, e, ofs)" using a by simp
    show "- (2 ^ 31) \<le> c + ofs" using a by simp
    show "c + ofs < 2 ^ 31" using a by simp
    fix j assume "j < i"
    with a show "\<exists>r. cmap_record d c (0 + int j) = Some r \<and> \<not> is_unicode_record r"
      by (intro non_unicode_beforeD) simp_all
  qed
  then show "glyph_ttf_init font d off
              = Some (1, (with_tables font d off c l h g hh hm k gp)
                           \<lparr>indexToLocFormat := itlf, index_map := c + ofs, numGlyphs := ng\<rparr>)"
    using unf itlf n a by simp
qed

text \<open>
  The synthetic font has the records (1,0), (3,1), (0,3): record 1 is selected although
  record 2 is platform 0. With the records (1,0), (3,0), (1,0) the load fails.
\<close>

theorem init_cmap_selection_witness:
  "glyph_ttf__isfont sample_font_bytes 0 = Some True
   \<and> directory_tables sample_font_bytes 0 = Some (108, 326, 224, 184, 278, 314, 0, 0)
   \<and> glyph_ttf__get16 sample_font_bytes (224 + 50) = Some 0
   \<and> glyph_ttf__get16u sample_font_bytes (108 + 2) = Some 3
   \<and> cmap_record sample_font_bytes 108 0 = Some (1, 0, 52)
   \<and> cmap_record sample_font_bytes 108 1 = Some (3, 1, 28)
   \<and> cmap_record sample_font_bytes 108 2 = Some (0, 3, 52)
   \<and> glyph_ttf__get16u sample_font_bytes (278 + 34) = Some 3
   \<and> glyph_ttf_init zero_font sample_font_bytes 0
       = Some (1, (with_tables zero_font sample_font_bytes 0 108 326 224 184 278 314 0 0)
                    \<lparr>indexToLocFormat := 0, index_map := 108 + 28, numGlyphs := 3\<rparr>)
   \<and> glyph_ttf__isfont symbol_font_bytes 0 = Some True
   \<and> directory_tables symbol_font_bytes 0 = Some (108, 326, 224, 184, 278, 314, 0, 0)
   \<and> glyph_ttf__get16 symbol_font_bytes (224 + 50) = Some 0
   \<and> glyph_ttf__get16u symbol_font_bytes (108 + 2) = Some 3
   \<and> non_unicode_before symbol_font_bytes 108 (nat 3)
   \<and> glyph_ttf_init zero_font symbol_font_bytes 0
       = Some (0, (with_tables zero_font symbol_font_bytes 0 108 326 224 184 278 314 0 0)
                    \<lparr>indexToLocFormat := 0\<rparr>)"
proof -
  have s1: "glyph_ttf__isfont sample_font_bytes 0 = Some True" by code_simp
  have s2: "directory_tables sample_font_bytes 0 = Some (108, 326, 224, 184, 278, 314, 0, 0)"
    by code_simp
  have s3: "glyph_ttf__get16 sample_font_bytes (224 + 50) = Some 0" by code_simp
  have s4: "glyph_ttf__get16u sample_font_bytes (108 + 2) = Some 3" by code_simp
  have s5: "cmap_record sample_font_bytes 108 0 = Some (1, 0, 52)" by code_simp
  have s6: "cmap_record sample_font_bytes 108 1 = Some (3, 1, 28)" by code_simp
  have s7: "cmap_record sample_font_bytes 108 2 = Some (0, 3, 52)" by code_simp
  have s8: "glyph_ttf__get16u sample_font_bytes (278 + 34) = Some 3" by code_simp
  have s9: "non_unicode_before sample_font_bytes 108 1" by code_simp
  have y1: "glyph_ttf__isfont symbol_font_bytes 0 = Some True" by code_simp
  have y2: "directory_tables symbol_font_bytes 0 = Some (108, 326, 224, 184, 278, 314, 0, 0)"
    by code_simp
  have y3: "glyph_ttf__get16 symbol_font_bytes (224 + 50) = Some 0" by code_simp
  have y4: "glyph_ttf__get16u symbol_font_bytes (108 + 2) = Some 3" by code_simp
  have y5: "non_unicode_before symbol_font_bytes 108 (nat 3)" by code_simp
  have a: "glyph_ttf_init zero_font sample_font_bytes 0
       = Some (1, (with_tables zero_font sample_font_bytes 0 108 326 224 184 278 314 0 0)
                    \<lparr>indexToLocFormat := 0, index_map := 108 + 28, numGlyphs := 3\<rparr>)"
    using init_cmap_selection[OF s1 s2 _ s3 s4, of zero_font, THEN conjunct2, rule_format,
        of 1 3 1 28 3] s6 s8 s9
    by (simp add: is_unicode_record_def)
  have b: "glyph_ttf_init zero_font symbol_font_bytes 0
       = Some (0, (with_tables zero_font symbol_font_bytes 0 108 326 224 184 278 314 0 0)
                    \<lparr>indexToLocFormat := 0\<rparr>)"
    using init_cmap_selection[OF y1 y2 _ y3 y4, of zero_font, THEN conjunct1] y5 by simp
  from s1 s2 s3 s4 s5 s6 s7 s8 a y1 y2 y3 y4 y5 b show ?thesis by simp
qed

text \<open>
  Claim C5 as stated fails: for the font without a Unicode encoding record
  \<^verbatim>\<open>glyph_ttf_init\<close> returns 0, the load does not succeed.
\<close>

theorem init_fails_without_unicode_cmap:
  "cmap_record symbol_font_bytes 108 0 = Some (1, 0, 52)
   \<and> cmap_record symbol_font_bytes 108 1 = Some (3, 0, 28)
   \<and> cmap_record symbol_font_bytes 108 2 = Some (1, 0, 52)
   \<and> glyph_ttf_init zero_font symbol_font_bytes 0
       = Some (0, zero_font\<lparr>data := symbol_font_bytes, loca := 326, head := 224, glyf := 184,
                    hhea := 278, hmtx := 314, cmap := 108\<rparr>)"
  by code_simp

section \<open>The bitmap of an empty glyph\<close>

text \<open>
  Claim C6. When the two adjacent loca entries of a glyph are equal (4-byte entries as they
  are, 2-byte entries doubled), \<^verbatim>\<open>glyph_ttf__get_glyph_offset\<close> returns the sentinel -1, and
  \<^verbatim>\<open>glyph_ttf_get_glyph_bitmap\<close> returns no bitmap with width 0 and height 0.
\<close>

theorem empty_glyph_bitmap:
  assumes "loca_entry font gi = Some e" and "loca_entry font (gi + 1) = Some e"
  shows "glyph_ttf__get_glyph_offset font gi = Some (- 1)
       \<and> glyph_ttf_get_glyph_bitmap font gi scale_x scale_y = Some null_bitmap
       \<and> out_null null_bitmap \<and> out_width null_bitmap = 0 \<and> out_height null_bitmap = 0"
  using empty_glyph_offset[OF assms]
  by (simp add: glyph_ttf_get_glyph_bitmap_def null_bitmap_def)

text \<open>Glyph 1 of the synthetic font.\<close>

theorem empty_glyph_bitmap_witness:
  "loca_entry sample_font 1 = Some 24 \<and> loca_entry sample_font (1 + 1) = Some 24
   \<and> glyph_ttf__get_glyph_offset sample_font 1 = Some (- 1)
   \<and> glyph_ttf_get_glyph_bitmap sample_font 1 1 1 = Some null_bitmap"
proof -
  have b: "loca_entry sample_font 1 = Some 24" by code_simp
  have c: "loca_entry sample_font (1 + 1) = Some 24" by code_simp
  from empty_glyph_bitmap[OF b c, of 1 1] b c show ?thesis by simp
qed

section \<open>Composite glyphs\<close>

text \<open>
  Claim C4, as amended. For a glyph whose \<open>numberOfContours\<close> is negative,
  \<^verbatim>\<open>glyph_ttf_get_glyph_bitmap\<close> returns no bitmap and sets width, height and both offsets to
  0: the very outcome of an empty glyph.
\<close>

theorem composite_glyph_bitmap:
  assumes "glyph_ttf__get_glyph_offset font gi = Some g" and "0 \<le> g"
    and "glyph_ttf__get16 (data font) g = Some numberOfContours" and "numberOfContours < 0"
  shows "glyph_ttf_get_glyph_bitmap font gi scale_x scale_y = Some null_bitmap
       \<and> (loca_entry font gj = Some e \<and> loca_entry font (gj + 1) = Some e \<longrightarrow>
            glyph_ttf_get_glyph_bitmap font gj scale_x scale_y
              = glyph_ttf_get_glyph_bitmap font gi scale_x scale_y)"
proof -
  have a: "glyph_ttf_get_glyph_bitmap font gi scale_x scale_y = Some null_bitmap"
    using assms by (simp add: glyph_ttf_get_glyph_bitmap_def)
  have "glyph_ttf_get_glyph_bitmap font gj scale_x scale_y = Some null_bitmap"
    if "loca_entry font gj = Some e \<and> loca_entry font (gj + 1) = Some e"
    using that empty_glyph_offset[of font gj e]
    by (simp add: glyph_ttf_get_glyph_bitmap_def)
  with a show ?thesis by simp
qed

text \<open>Glyph 2 of the synthetic font is composite (\<open>numberOfContours = -1\<close>), glyph 1 is empty.\<close>

theorem composite_glyph_bitmap_witness:
  "glyph_ttf__get_glyph_offset sample_font 2 = Some 208 \<and> (0::int) \<le> 208
   \<and> glyph_ttf__get16 (data sample_font) 208 = Some (- 1) \<and> (- 1 :: int) < 0
   \<and> loca_entry sample_font 1 = Some 24 \<and> loca_entry sample_font (1 + 1) = Some 24
   \<and> glyph_ttf_get_glyph_bitmap sample_font 2 1 1 = Some null_bitmap
   \<and> glyph_ttf_get_glyph_bitmap sample_font 1 1 1 = glyph_ttf_get_glyph_bitmap sample_font 2 1 1"
proof -
  have a: "glyph_ttf__get_glyph_offset sample_font 2 = Some 208" by code_simp
  have b: "glyph_ttf__get16 (data sample_font) 208 = Some (- 1)" by code_simp
  have c: "loca_entry sample_font 1 = Some 24" by code_simp
  have d: "loca_entry sample_font (1 + 1) = Some 24" by code_simp
  from composite_glyph_bitmap[OF a _ b, of 1 1 1 24] a b c d show ?thesis by simp
qed

text \<open>
  Claim C4 as stated fails: the composite glyph 2 and the empty glyph 1 give the same
  outcome, no bitmap of size 0 by 0, and nothing else is reported.
\<close>

theorem composite_like_empty:
  "glyph_ttf__get16 (data sample_font) 208 = Some (- 1)
   \<and> glyph_ttf__get_glyph_offset sample_font 2 = Some 208
   \<and> glyph_ttf__get_glyph_offset sample_font 1 = Some (- 1)
   \<and> glyph_ttf_get_glyph_bitmap sample_font 2 1 1 = Some null_bitmap
   \<and> glyph_ttf_get_glyph_bitmap sample_font 1 1 1 = Some null_bitmap"
  by code_simp

section \<open>Scale factor and bitmap size\<close>

lemma scale_for_pixel_height_eq:
  assumes "glyph_ttf__get16u (data font) (head font + 18) = Some unitsPerEm" and "unitsPerEm \<noteq> 0"
  shows "glyph_ttf_scale_for_pixel_height font pixels = Some (f32_round (pixels / of_int unitsPerEm))"
proof -
  have "\<bar>unitsPerEm\<bar> < 2 ^ 24" using get16u_range[OF assms(1)] by simp
  then have "f32_of_int unitsPerEm = of_int unitsPerEm" by (rule f32_of_int_exact)
  then show ?thesis using assms by (simp add: glyph_ttf_scale_for_pixel_height_def f32_div_def)
qed

lemma int_of_f32_int: "int_of_f32 (of_int c) = Some v \<Longrightarrow> v = c"
  by (simp add: int_of_f32_def trunc_zero_def split: if_splits)

lemma bitmap_size:
  assumes off: "glyph_ttf__get_glyph_offset font gi = Some g"
    and bb: "glyph_ttf__get16 (data font) (g + 2) = Some xMin"
      "glyph_ttf__get16 (data font) (g + 4) = Some yMin"
      "glyph_ttf__get16 (data font) (g + 6) = Some xMax"
      "glyph_ttf__get16 (data font) (g + 8) = Some yMax"
    and res: "glyph_ttf_get_glyph_bitmap font gi scale_x scale_y = Some r"
    and nn: "\<not> out_null r"
  shows "out_width r = \<lceil>f32_round (of_int (xMax - xMin) * scale_x)\<rceil> + 1
       \<and> out_height r = \<lceil>f32_round (of_int (yMax - yMin) * scale_y)\<rceil> + 1"
proof -
  have "\<bar>xMax - xMin\<bar> < 16777216"
    using get16_range[OF bb(1)] get16_range[OF bb(3)] by linarith
  then have x: "f32_of_int (xMax - xMin) = of_int (xMax - xMin)"
    by (intro f32_of_int_exact) simp
  have "\<bar>yMax - yMin\<bar> < 16777216"
    using get16_range[OF bb(2)] get16_range[OF bb(4)] by linarith
  then have y: "f32_of_int (yMax - yMin) = of_int (yMax - yMin)"
    by (intro f32_of_int_exact) simp
  from res nn off bb show ?thesis
    unfolding glyph_ttf_get_glyph_bitmap_def Let_def f32_mul_def
    by (auto simp: null_bitmap_def x y dest!: int_of_f32_int split: if_splits Option.bind_splits prod.splits)
qed

text \<open>
  Claim C8. The scale for a pixel height is \<open>pixels / unitsPerEm\<close>, and the bitmap of a
  rasterised simple glyph has width \<open>ceil((xMax - xMin) * scale_x) + 1\<close> and height
  \<open>ceil((yMax - yMin) * scale_y) + 1\<close>, the quotient and the products being computed in
  single precision (\<open>f32_round\<close> of the exact value).
\<close>

theorem scale_and_bitmap_size:
  "(glyph_ttf__get16u (data font) (head font + 18) = Some unitsPerEm \<and> unitsPerEm \<noteq> 0 \<longrightarrow>
      glyph_ttf_scale_for_pixel_height font pixels = Some (f32_round (pixels / of_int unitsPerEm)))
   \<and> (glyph_ttf__get_glyph_offset font gi = Some g
        \<and> glyph_ttf__get16 (data font) (g + 2) = Some xMin
        \<and> glyph_ttf__get16 (data font) (g + 4) = Some yMin
        \<and> glyph_ttf__get16 (data font) (g + 6) = Some xMax
        \<and> glyph_ttf__get16 (data font) (g + 8) = Some yMax
        \<and> glyph_ttf_get_glyph_bitmap font gi scale_x scale_y = Some r \<and> \<not> out_null r \<longrightarrow>
      out_width r = \<lceil>f32_round (of_int (xMax - xMin) * scale_x)\<rceil> + 1
      \<and> out_height r = \<lceil>f32_round (of_int (yMax - yMin) * scale_y)\<rceil> + 1)"
  using scale_for_pixel_height_eq[of font unitsPerEm pixels]
    bitmap_size[of font gi g xMin yMin xMax yMax scale_x scale_y r]
  by blast

text \<open>
  The scenario of the claim on the synthetic font (\<open>unitsPerEm = 1000\<close>, glyph 0 with the
  box (0,0)-(1000,1000)): at pixel height 16 the scale is the single-precision value next to
  0.016, and the bitmap is 17 by 17.
\<close>

theorem scale_and_bitmap_size_witness:
  "glyph_ttf__get16u (data sample_font) (head sample_font + 18) = Some 1000
   \<and> glyph_ttf_scale_for_pixel_height sample_font 16 = Some (8589935 / 536870912)
   \<and> \<bar>8589935 / 536870912 - 16 / 1000\<bar> < (1 / 10 ^ 9 :: rat)
   \<and> glyph_ttf__get_glyph_offset sample_font 0 = Some 184
   \<and> glyph_ttf__get16 (data sample_font) (184 + 2) = Some 0
   \<and> glyph_ttf__get16 (data sample_font) (184 + 4) = Some 0
   \<and> glyph_ttf__get16 (data sample_font) (184 + 6) = Some 1000
   \<and> glyph_ttf__get16 (data sample_font) (184 + 8) = Some 1000
   \<and> glyph_ttf_get_glyph_bitmap sample_font 0 (8589935 / 536870912) (8589935 / 536870912)
       = Some \<lparr>out_null = False, out_width = 17, out_height = 17, out_xoff = 0, out_yoff = 16,
                outline = [[(0, 16, 1), (16, 16, 1), (16, 0, 1), (0, 0, 1)]]\<rparr>"
proof -
  let ?r = "\<lparr>out_null = False, out_width = 17, out_height = 17, out_xoff = 0, out_yoff = 16,
                outline = [[(0, 16, 1), (16, 16, 1), (16, 0, 1), (0, 0, 1 :: int)]] :: (rat \<times> rat \<times> int) list list\<rparr>"
  have u: "glyph_ttf__get16u (data sample_font) (head sample_font + 18) = Some 1000" by code_simp
  have f: "f32_round (16 / rat_of_int 1000) = 8589935 / 536870912" by code_simp
  have o: "glyph_ttf__get_glyph_offset sample_font 0 = Some 184" by code_simp
  have b1: "glyph_ttf__get16 (data sample_font) (184 + 2) = Some 0" by code_simp
  have b2: "glyph_ttf__get16 (data sample_font) (184 + 4) = Some 0" by code_simp
  have b3: "glyph_ttf__get16 (data sample_font) (184 + 6) = Some 1000" by code_simp
  have b4: "glyph_ttf__get16 (data sample_font) (184 + 8) = Some 1000" by code_simp
  have r: "glyph_ttf_get_glyph_bitmap sample_font 0 (8589935 / 536870912) (8589935 / 536870912)
       = Some ?r" by code_simp
  have s: "glyph_ttf_scale_for_pixel_height sample_font 16 = Some (8589935 / 536870912)"
    using scale_and_bitmap_size[THEN conjunct1, of sample_font 1000 16] u f by simp
  have w: "out_width ?r = \<lceil>f32_round (of_int (1000 - 0) * (8589935 / 536870912))\<rceil> + 1
      \<and> out_height ?r = \<lceil>f32_round (of_int (1000 - 0) * (8589935 / 536870912))\<rceil> + 1"
    using scale_and_bitmap_size[THEN conjunct2, of sample_font 0 184 0 0 1000 1000
        "8589935 / 536870912" "8589935 / 536870912" ?r] o b1 b2 b3 b4 r by simp
  have "\<bar>8589935 / 536870912 - 16 / 1000\<bar> < (1 / 10 ^ 9 :: rat)" by simp
  with u s o b1 b2 b3 b4 r w show ?thesis by simp
qed

section \<open>Rows of a BMP file\<close>

lemma smod_nonneg: "0 \<le> a \<Longrightarrow> 0 < b \<Longrightarrow> (a::int) smod b = a mod b"
  by (cases "a = 0") (simp_all add: signed_modulo_int_def)

lemma sdiv_nonneg: "0 \<le> a \<Longrightarrow> 0 < b \<Longrightarrow> (a::int) sdiv b = a div b"
  by (cases "a = 0") (simp_all add: signed_divide_int_def)

lemma bmp_padding: "0 \<le> w \<Longrightarrow> (4 - (w * 3) smod 4) smod 4 = bmp_row_size w - w * 3"
proof -
  assume w: "0 \<le> w"
  have "(4 - (w * 3) mod 4) mod 4 = ((w * 3 + 3) div 4) * 4 - w * 3" by presburger
  moreover have "(w * 3) smod 4 = (w * 3) mod 4" using w by (intro smod_nonneg) simp_all
  moreover have "(4 - (w * 3) mod 4) smod 4 = (4 - (w * 3) mod 4) mod 4"
    by (intro smod_nonneg) simp_all
  ultimately show ?thesis by (simp add: bmp_row_size_def)
qed

lemma byte_at_nat: "n < length d \<Longrightarrow> byte_at d (int n) = Some (d ! n)"
  by (simp add: byte_at_def)

lemma bmp_pixels_eq:
  "(y * w + x + k) * 3 \<le> length d \<Longrightarrow>
   bmp_pixels d (int w) (int y) k (int x)
     = Some (concat (map (\<lambda>j. [d ! ((y * w + j) * 3 + 2), d ! ((y * w + j) * 3 + 1), d ! ((y * w + j) * 3)])
                         [x..<x + k]))"
proof (induction k arbitrary: x)
  case 0
  then show ?case by simp
next
  case (Suc k)
  have i: "(int y * int w + int x) * 3 = int ((y * w + x) * 3)" by simp
  have r: "byte_at d (int ((y * w + x) * 3) + 0) = Some (d ! ((y * w + x) * 3))"
    "byte_at d (int ((y * w + x) * 3) + 1) = Some (d ! ((y * w + x) * 3 + 1))"
    "byte_at d (int ((y * w + x) * 3) + 2) = Some (d ! ((y * w + x) * 3 + 2))"
    using Suc.prems byte_at_nat[of "(y * w + x) * 3" d] byte_at_nat[of "(y * w + x) * 3 + 1" d]
      byte_at_nat[of "(y * w + x) * 3 + 2" d]
    by (simp_all add: add.commute)
  have "bmp_pixels d (int w) (int y) k (int (Suc x))
     = Some (concat (map (\<lambda>j. [d ! ((y * w + j) * 3 + 2), d ! ((y * w + j) * 3 + 1), d ! ((y * w + j) * 3)])
                         [Suc x..<Suc x + k]))"
    using Suc.prems by (intro Suc.IH) simp
  then have ih: "bmp_pixels d (int w) (int y) k (int x + 1)
     = Some (concat (map (\<lambda>j. [d ! ((y * w + j) * 3 + 2), d ! ((y * w + j) * 3 + 1), d ! ((y * w + j) * 3)])
                         [Suc x..<Suc x + k]))"
    by (simp add: add.commute)
  have "[x..<x + Suc k] = x # [Suc x..<Suc x + k]" by (simp add: upt_rec)
  then show ?case
    unfolding bmp_pixels.simps i r ih by (simp del: upt_Suc)
qed

lemma bmp_row_eq:
  assumes "(y * w + w) * 3 \<le> length d"
  shows "bmp_row d (int w) (int y)
          = Some (bgr_row d w y @ replicate (nat (bmp_row_size (int w) - int w * 3)) 0)"
  using bmp_pixels_eq[of y w 0 w d] assms
  by (simp add: bmp_row_def bgr_row_def bmp_padding)

lemma bmp_rows_eq:
  "k * w * 3 \<le> length d \<Longrightarrow>
   bmp_rows d (int w) k (int k - 1)
     = Some (concat (map (\<lambda>y. bgr_row d w y @ replicate (nat (bmp_row_size (int w) - int w * 3)) 0)
                         (rev [0..<k])))"
proof (induction k)
  case 0
  then show ?case by simp
next
  case (Suc k)
  have "(k * w + w) * 3 \<le> length d" using Suc.prems by (simp add: algebra_simps)
  then have row: "bmp_row d (int w) (int k)
          = Some (bgr_row d w k @ replicate (nat (bmp_row_size (int w) - int w * 3)) 0)"
    by (rule bmp_row_eq)
  have "k * w * 3 \<le> length d" using Suc.prems by (simp add: algebra_simps)
  then have rest: "bmp_rows d (int w) k (int k - 1)
     = Some (concat (map (\<lambda>y. bgr_row d w y @ replicate (nat (bmp_row_size (int w) - int w * 3)) 0)
                         (rev [0..<k])))"
    by (rule Suc.IH)
  show ?case using row rest by simp
qed

lemma length_bgr_row: "length (bgr_row d w y) = 3 * w"
  by (simp add: bgr_row_def length_concat comp_def sum_list_triv)

lemma bmp_row_size_bounds: "0 \<le> w \<Longrightarrow> w * 3 \<le> bmp_row_size w \<and> 4 dvd bmp_row_size w"
  unfolding bmp_row_size_def by presburger

text \<open>
  Claim C9, as amended. For an image with a pixel buffer (not \<^verbatim>\<open>NULL\<close>) of at least
  \<open>3 * w * h\<close> bytes, whose width \<open>w\<close> and height \<open>h\<close> are not negative as \<^verbatim>\<open>int\<close>s, and for which
  \<open>3 * w + 3\<close> and the file size \<open>54 + ((w * 3 + 3) div 4) * 4 * h\<close> are in the range of
  \<^verbatim>\<open>int\<close>: the writer returns 0 and the file is the two headers followed by the rows
  \<open>h - 1, ..., 0\<close>; a row is its pixels in BGR order followed by zero bytes up to
  \<open>((w * 3 + 3) div 4) * 4\<close> bytes, a multiple of 4.
\<close>

theorem bmp_rows_padded:
  assumes d: "img_data img = Some d"
    and w: "sint (width img) = int w" and h: "sint (height img) = int h"
    and fit: "int w * 3 + 3 < 2 ^ 31" "54 + bmp_row_size (int w) * int h < 2 ^ 31"
    and len: "h * w * 3 \<le> length d"
  shows "glyph_write_bmp img
          = Some (0, bmp_fileheader (54 + bmp_row_size (int w) * int h)
                     @ bmp_infoheader (int w) (int h) (bmp_row_size (int w) * int h)
                     @ concat (map (\<lambda>y. bgr_row d w y @ replicate (nat (bmp_row_size (int w) - int w * 3)) 0)
                                   (rev [0..<h])))
       \<and> 4 dvd bmp_row_size (int w)
       \<and> (\<forall>y. int (length (bgr_row d w y @ replicate (nat (bmp_row_size (int w) - int w * 3)) 0))
                = bmp_row_size (int w))"
proof -
  have rs: "int w * 3 \<le> bmp_row_size (int w)" "4 dvd bmp_row_size (int w)"
    using bmp_row_size_bounds[of "int w"] by simp_all
  have rs0: "0 \<le> bmp_row_size (int w)" using rs(1) by linarith
  have c1: "c_int (int w * 3) = Some (int w * 3)" using fit(1) by (simp add: c_int_def)
  have c2: "c_int (int w * 3 + 3) = Some (int w * 3 + 3)" using fit(1) by (simp add: c_int_def)
  have sd: "(int w * 3 + 3) sdiv 4 * 4 = bmp_row_size (int w)"
    by (simp add: sdiv_nonneg bmp_row_size_def)
  have "0 \<le> bmp_row_size (int w) * int h" using rs0 by simp
  then have c3: "c_int (bmp_row_size (int w) * int h) = Some (bmp_row_size (int w) * int h)"
    and c4: "c_int (54 + bmp_row_size (int w) * int h) = Some (54 + bmp_row_size (int w) * int h)"
    using fit(2) by (simp_all add: c_int_def)
  have rows: "bmp_rows d (int w) h (int h - 1)
     = Some (concat (map (\<lambda>y. bgr_row d w y @ replicate (nat (bmp_row_size (int w) - int w * 3)) 0)
                         (rev [0..<h])))"
    using len by (rule bmp_rows_eq)
  have out: "glyph_write_bmp img
          = Some (0, bmp_fileheader (54 + bmp_row_size (int w) * int h)
                     @ bmp_infoheader (int w) (int h) (bmp_row_size (int w) * int h)
                     @ concat (map (\<lambda>y. bgr_row d w y @ replicate (nat (bmp_row_size (int w) - int w * 3)) 0)
                                   (rev [0..<h])))"
    unfolding glyph_write_bmp_def Let_def d w h by (simp add: c1 c2 sd c3 c4 rows)
  have "int (length (bgr_row d w y @ replicate (nat (bmp_row_size (int w) - int w * 3)) 0))
                = bmp_row_size (int w)" for y
    using rs(1) by (simp add: length_bgr_row)
  with out rs(2) show ?thesis by simp
qed

text \<open>The 2 by 2 image: rows of 6 + 2 bytes, the lower row first.\<close>

theorem bmp_rows_padded_witness:
  "img_data sample_image = Some [1, 2, 3, 4, 5, 6, 7, 8, 9, 10, 11, 12]
   \<and> sint (width sample_image) = int 2 \<and> sint (height sample_image) = int 2
   \<and> bmp_row_size (int 2) = 8
   \<and> glyph_write_bmp sample_image
       = Some (0, bmp_fileheader 70 @ bmp_infoheader 2 2 16
                  @ [9, 8, 7, 12, 11, 10, 0, 0] @ [3, 2, 1, 6, 5, 4, 0, 0])"
proof -
  have d: "img_data sample_image = Some [1, 2, 3, 4, 5, 6, 7, 8, 9, 10, 11, 12]"
    by (simp add: sample_image_def)
  have w: "sint (width sample_image) = int 2" and h: "sint (height sample_image) = int 2"
    by (simp_all add: sample_image_def)
  have rs: "bmp_row_size (int 2) = 8" by (simp add: bmp_row_size_def)
  have rows: "concat (map (\<lambda>y. bgr_row [1, 2, 3, 4, 5, 6, 7, 8, 9, 10, 11, 12 :: byte] 2 y
                 @ replicate 2 0) (rev [0..<2]))
       = [9, 8, 7, 12, 11, 10, 0, 0, 3, 2, 1, 6, 5, 4, 0, 0]"
    by code_simp
  from bmp_rows_padded[OF d w h] d w h rs show ?thesis by (simp add: rows)
qed

lemma bmp_negative_width:
  "glyph_write_bmp \<lparr>width = 0xFFFFFFFF, height = 1, img_data = Some d\<rparr>
     = Some (0, bmp_fileheader 54 @ bmp_infoheader (- 1) 1 0 @ [0, 0, 0])"
  by (simp add: glyph_write_bmp_def c_int_def bmp_row_def signed_modulo_int_def
      signed_divide_int_def eval_nat_numeral)

text \<open>
  Claim C9 as stated fails for width \<open>2^32 - 1\<close>: the writer converts the width to the
  \<^verbatim>\<open>int\<close> -1, writes no pixel, and pads the row with \<open>(4 - (-3 % 4)) % 4 = 3\<close> bytes.
\<close>

theorem bmp_row_of_wide_image:
  "glyph_write_bmp wide_image = Some (0, bmp_fileheader 54 @ bmp_infoheader (- 1) 1 0 @ [0, 0, 0])
   \<and> unat (width wide_image) = 4294967295
   \<and> int (length [0, 0, 0 :: byte]) \<noteq> ((4294967295 * 3 + 3) div 4) * 4
   \<and> \<not> 4 dvd length [0, 0, 0 :: byte]"
proof -
  have "glyph_write_bmp wide_image = Some (0, bmp_fileheader 54 @ bmp_infoheader (- 1) 1 0 @ [0, 0, 0])"
    unfolding wide_image_def by (rule bmp_negative_width)
  moreover have "unat (width wide_image) = 4294967295"
    unfolding wide_image_def by simp
  moreover have "\<not> 4 dvd length [0, 0, 0 :: byte]"
  proof -
    have "length [0, 0, 0 :: byte] = 3" by simp
    then show ?thesis by presburger
  qed
  ultimately show ?thesis by simp
qed

section \<open>Values of a signed distance field\<close>





section \<open>The PNG writer\<close>

subsection \<open>Chunks\<close>

lemma length_write_u32_be [simp]: "length (write_u32_be v) = 4"
  by (simp add: write_u32_be_def)




lemma tag_length [simp]: "length (tag_bytes s) = length s"
  by (simp add: tag_bytes_def)


subsection \<open>The Sub filter and the rows\<close>








subsection \<open>The row loop of the writer\<close>





subsection \<open>Stored blocks\<close>









subsection \<open>The zlib stream and the IDAT chunk\<close>









subsection \<open>The file of the writer and its decoding\<close>












end
